theory Spec2Isabelle
  imports Main "HOL-Library.AList"
begin

section \<open>JavaScript values used by the OAuth handlers\<close>

text \<open>
  Timestamps and lifetimes are JavaScript numbers. The handlers only ever add, subtract,
  multiply and compare integers (\<open>Date.now()\<close> in milliseconds, lifetimes in seconds), but a
  field that the provider leaves out of its JSON reply is \<open>undefined\<close>, and arithmetic on it
  gives \<open>NaN\<close>. A number is therefore an \<open>int option\<close>, with \<open>None\<close> standing for a
  missing field (\<open>undefined\<close>) or for \<open>NaN\<close>; every comparison with \<open>None\<close> is false.
  An optional string is a \<open>string option\<close>, \<open>None\<close> being \<open>undefined\<close>.
\<close>

type_synonym jsnum = "int option"

definition js_add :: "jsnum \<Rightarrow> jsnum \<Rightarrow> jsnum" where
  "js_add a b = (case a of None \<Rightarrow> None | Some x \<Rightarrow> (case b of None \<Rightarrow> None | Some y \<Rightarrow> Some (x + y)))"

definition js_sub :: "jsnum \<Rightarrow> jsnum \<Rightarrow> jsnum" where
  "js_sub a b = (case a of None \<Rightarrow> None | Some x \<Rightarrow> (case b of None \<Rightarrow> None | Some y \<Rightarrow> Some (x - y)))"

definition js_mul :: "jsnum \<Rightarrow> jsnum \<Rightarrow> jsnum" where
  "js_mul a b = (case a of None \<Rightarrow> None | Some x \<Rightarrow> (case b of None \<Rightarrow> None | Some y \<Rightarrow> Some (x * y)))"

definition js_ge :: "jsnum \<Rightarrow> jsnum \<Rightarrow> bool" where
  "js_ge a b = (case a of None \<Rightarrow> False | Some x \<Rightarrow> (case b of None \<Rightarrow> False | Some y \<Rightarrow> y \<le> x))"

definition truthy_num :: "jsnum \<Rightarrow> bool" where
  "truthy_num a = (case a of None \<Rightarrow> False | Some x \<Rightarrow> x \<noteq> 0)"

definition truthy_str :: "string option \<Rightarrow> bool" where
  "truthy_str a = (case a of None \<Rightarrow> False | Some x \<Rightarrow> x \<noteq> [])"

text \<open>\<open>a || b\<close> on optional strings, and \<open>a || 'literal'\<close> with a string default.\<close>

definition js_or :: "string option \<Rightarrow> string option \<Rightarrow> string option" where
  "js_or a b = (if truthy_str a then a else b)"

definition js_or_default :: "string option \<Rightarrow> string \<Rightarrow> string" where
  "js_or_default a d = (case a of None \<Rightarrow> d | Some x \<Rightarrow> if x = [] then d else x)"

text \<open>\<open>Math.max(0, Math.floor(ms / 1000))\<close>; \<open>div\<close> on \<open>int\<close> rounds down, as \<open>Math.floor\<close>.\<close>

definition seconds_left :: "jsnum \<Rightarrow> jsnum" where
  "seconds_left ms = (case ms of None \<Rightarrow> None | Some x \<Rightarrow> Some (max 0 (x div 1000)))"

section \<open>Data model\<close>

text \<open>
  The object stored per realm in \<open>tokenStore\<close>. \<open>isRefreshing\<close> is absent on a record
  written by the callback or by \<open>/refresh\<close>; an absent flag is falsy, so it is \<open>False\<close> here.
\<close>

record token_data =
  accessToken :: "string option"
  refreshToken :: "string option"
  expiresAt :: jsnum
  refreshTokenExpiresAt :: jsnum
  realmId :: string
  environment :: string
  updatedAt :: int
  isRefreshing :: bool

record state_record =
  createdAt :: int
  redirectUri :: string

text \<open>
  \<open>oauthStateStore\<close> is \<open>new Map()\<close>: an insertion-ordered association list, with
  \<open>Map.get\<close> as \<open>map_of\<close>, \<open>Map.set\<close> as \<open>AList.update\<close> (an existing key keeps its
  place) and \<open>Map.delete\<close> as \<open>AList.delete\<close>.
\<close>

text \<open>
  Modelled from the spec: the module \<open>services/tokenStore.js\<close> that exports
  \<open>tokenStore\<close> is not among the sources; section 4.3 describes both stores as pure keyed
  storage with \<open>set\<close>, \<open>get\<close>, \<open>delete\<close> and \<open>entries\<close>, and every use in the
  handlers is a \<open>Map\<close> method, so \<open>tokenStore\<close> is the same kind of map as
  \<open>oauthStateStore\<close>.
\<close>

record server_state =
  tokenStore :: "(string \<times> token_data) list"
  oauthStateStore :: "(string \<times> state_record) list"

text \<open>The part of \<open>process.env\<close> that the handlers read.\<close>

record env =
  QUICKBOOKS_CLIENT_ID :: "string option"
  QUICKBOOKS_CLIENT_SECRET :: "string option"
  QUICKBOOKS_REDIRECT_URI :: "string option"
  QUICKBOOKS_ENVIRONMENT :: "string option"
  QUICKBOOKS_SCOPE :: "string option"
  FRONTEND_URL :: "string option"

definition env_environment :: "env \<Rightarrow> string" where
  "env_environment e = js_or_default (QUICKBOOKS_ENVIRONMENT e) ''sandbox''"

definition env_frontendUrl :: "env \<Rightarrow> string" where
  "env_frontendUrl e = js_or_default (FRONTEND_URL e) ''http://localhost:5173''"

section \<open>The provider's replies\<close>

text \<open>
  \<open>await fetch(...)\<close> either rejects (a network error, with its message) or resolves to a
  response. \<open>response.json()\<close> either rejects (the body is not JSON) or yields an object, of
  which the handlers read the fields below.
\<close>

record token_json =
  access_token :: "string option"
  refresh_token :: "string option"
  expires_in :: jsnum
  x_refresh_token_expires_in :: jsnum
  error :: "string option"

record response =
  ok :: bool
  status :: nat
  statusText :: string
  json :: "string + token_json"

datatype fetch_result = Rejected string | Resolved response

text \<open>\<open>errorData.error || tokenResponse.statusText\<close>, with
  \<open>errorData = await tokenResponse.json().catch(() => ({}))\<close>.\<close>

definition error_detail :: "response \<Rightarrow> string" where
  "error_detail resp =
     (case json resp of
        Inl _ \<Rightarrow> statusText resp
      | Inr d \<Rightarrow> js_or_default (error d) (statusText resp))"

text \<open>The record built from a successful refresh reply (the same object literal in
  \<open>/refresh\<close>, \<open>/token\<close> and \<open>getAccessToken\<close>, up to the \<open>isRefreshing\<close> field).\<close>

definition refreshed_record :: "env \<Rightarrow> string \<Rightarrow> token_data \<Rightarrow> token_json \<Rightarrow> int \<Rightarrow> token_data" where
  "refreshed_record e rid old new now =
     \<lparr> accessToken = access_token new,
       refreshToken = js_or (refresh_token new) (refreshToken old),
       expiresAt = js_add (Some now) (js_mul (expires_in new) (Some 1000)),
       refreshTokenExpiresAt =
         (if truthy_num (x_refresh_token_expires_in new)
          then js_add (Some now) (js_mul (x_refresh_token_expires_in new) (Some 1000))
          else refreshTokenExpiresAt old),
       realmId = rid,
       environment = env_environment e,
       updatedAt = now,
       isRefreshing = False \<rparr>"

text \<open>\<open>Date.now() >= (tokenData.expiresAt - 5 * 60 * 1000)\<close>\<close>

definition needsRefresh :: "int \<Rightarrow> token_data \<Rightarrow> bool" where
  "needsRefresh now td = js_ge (Some now) (js_sub (expiresAt td) (Some (5 * 60 * 1000)))"

section \<open>GET /api/oauth/status\<close>

record status_info =
  st_realmId :: string
  st_environment :: string
  st_expiresAt :: jsnum
  st_expiresIn :: jsnum
  st_needsRefresh :: bool
  st_isExpired :: bool

datatype status_response =
    StatusNotConnected string
  | StatusConnected status_info

fun connected :: "status_response \<Rightarrow> bool" where
  "connected (StatusNotConnected _) = False"
| "connected (StatusConnected _) = True"

text \<open>The handler only reads \<open>tokenStore\<close>, so the model returns the response alone.\<close>

definition status_route :: "string option \<Rightarrow> int \<Rightarrow> server_state \<Rightarrow> status_response" where
  "status_route rid now s =
     (case rid of
        None \<Rightarrow> StatusNotConnected ''No realmId provided''
      | Some r \<Rightarrow>
          if r = [] then StatusNotConnected ''No realmId provided''
          else (case map_of (tokenStore s) r of
                  None \<Rightarrow> StatusNotConnected ''No tokens found for this realmId''
                | Some td \<Rightarrow>
                    StatusConnected
                      \<lparr> st_realmId = realmId td,
                        st_environment = environment td,
                        st_expiresAt = expiresAt td,
                        st_expiresIn = seconds_left (js_sub (expiresAt td) (Some now)),
                        st_needsRefresh = needsRefresh now td,
                        st_isExpired = js_ge (Some now) (expiresAt td) \<rparr>))"

section \<open>POST /api/oauth/revoke\<close>

datatype revoke_response =
    RevokeBadRequest
  | RevokeOk string

text \<open>
  The remote call sits in its own \<open>try\<close>/\<open>catch\<close> and its response is never read, so the
  reply of the provider does not reach the result; the parameter is kept to state that.
\<close>

definition revoke_route :: "string option \<Rightarrow> fetch_result \<Rightarrow> server_state \<Rightarrow> revoke_response \<times> server_state" where
  "revoke_route rid reply s =
     (case rid of
        None \<Rightarrow> (RevokeBadRequest, s)
      | Some r \<Rightarrow>
          if r = [] then (RevokeBadRequest, s)
          else (case map_of (tokenStore s) r of
                  None \<Rightarrow> (RevokeOk ''No tokens found to revoke'', s)
                | Some td \<Rightarrow>
                    (RevokeOk ''Tokens revoked successfully'',
                     s\<lparr>tokenStore := AList.delete r (tokenStore s)\<rparr>)))"

section \<open>POST /api/oauth/refresh\<close>

datatype refresh_response =
    RefreshBadRequest
  | RefreshNoToken
  | RefreshTokenExpired
  | RefreshRejected nat string
  | RefreshOk jsnum
  | RefreshFailed string

text \<open>
  \<open>RefreshBadRequest\<close> is the 400 reply, \<open>RefreshNoToken\<close> the 404, \<open>RefreshTokenExpired\<close>
  the 401 with \<open>requiresReconnect\<close>, \<open>RefreshRejected\<close> the reply that copies the provider's
  status (also with \<open>requiresReconnect\<close>), \<open>RefreshFailed\<close> the 500 of the outer \<open>catch\<close>.
  \<open>t0\<close> is \<open>Date.now()\<close> before the \<open>await\<close>, \<open>t1\<close> after it.
\<close>

definition refresh_route ::
  "env \<Rightarrow> string option \<Rightarrow> int \<Rightarrow> fetch_result \<Rightarrow> int \<Rightarrow> server_state \<Rightarrow> refresh_response \<times> server_state" where
  "refresh_route e rid t0 reply t1 s =
     (case rid of
        None \<Rightarrow> (RefreshBadRequest, s)
      | Some r \<Rightarrow>
          if r = [] then (RefreshBadRequest, s)
          else (case map_of (tokenStore s) r of
                  None \<Rightarrow> (RefreshNoToken, s)
                | Some td \<Rightarrow>
                    if \<not> truthy_str (refreshToken td) then (RefreshNoToken, s)
                    else if js_ge (Some t0) (refreshTokenExpiresAt td)
                    then (RefreshTokenExpired, s\<lparr>tokenStore := AList.delete r (tokenStore s)\<rparr>)
                    else (case reply of
                            Rejected msg \<Rightarrow> (RefreshFailed (''Failed to refresh token: '' @ msg), s)
                          | Resolved resp \<Rightarrow>
                              if \<not> ok resp
                              then (RefreshRejected (status resp)
                                      (''Failed to refresh token: '' @ error_detail resp),
                                    s\<lparr>tokenStore := AList.delete r (tokenStore s)\<rparr>)
                              else (case json resp of
                                      Inl msg \<Rightarrow> (RefreshFailed (''Failed to refresh token: '' @ msg), s)
                                    | Inr new \<Rightarrow>
                                        (RefreshOk (expires_in new),
                                         s\<lparr>tokenStore :=
                                             AList.update r (refreshed_record e r td new t1)
                                               (tokenStore s)\<rparr>)))))"

section \<open>Token access with automatic refresh\<close>

text \<open>
  \<open>getAccessToken\<close> and the \<open>/token\<close> handler are \<open>async\<close> functions with one
  \<open>await fetch(...)\<close>. JavaScript runs the code up to the \<open>await\<close> without interruption,
  suspends the call, and runs the rest when the provider has answered; other calls may run in
  between. Each function is therefore split at the \<open>await\<close>: \<open>_begin\<close> runs up to it and
  either finishes or issues the network call and suspends, keeping the local variables
  \<open>realmId\<close> and \<open>tokenData\<close>; \<open>_resume\<close> runs the rest on the provider's reply. A call
  that nothing interrupts is \<open>_begin\<close> followed by \<open>_resume\<close>. Reading the body
  (\<open>await tokenResponse.json()\<close>) belongs to \<open>_resume\<close>: the reply comes with its body.
  \<open>t0\<close> is \<open>Date.now()\<close> before the \<open>await\<close>, \<open>t1\<close> after it.
\<close>

record pending_refresh =
  p_realmId :: string
  p_tokenData :: token_data

datatype 'r phase = Finished 'r | AwaitFetch pending_refresh

record access_result =
  ar_accessToken :: "string option"
  ar_realmId :: string

definition access_of :: "token_data \<Rightarrow> access_result" where
  "access_of td = \<lparr> ar_accessToken = accessToken td, ar_realmId = realmId td \<rparr>"

text \<open>A thrown \<open>Error\<close> is \<open>Inl\<close> of its message.\<close>

definition getAccessToken_begin ::
  "string option \<Rightarrow> int \<Rightarrow> server_state \<Rightarrow> (string + access_result) phase \<times> server_state" where
  "getAccessToken_begin rid t0 s =
     (case rid of
        None \<Rightarrow> (Finished (Inl ''realmId is required''), s)
      | Some r \<Rightarrow>
          if r = [] then (Finished (Inl ''realmId is required''), s)
          else (case map_of (tokenStore s) r of
                  None \<Rightarrow>
                    (Finished (Inl ''No OAuth tokens found for this realmId. Please connect your QuickBooks account via OAuth.''), s)
                | Some td \<Rightarrow>
                    if needsRefresh t0 td \<and> \<not> isRefreshing td
                    then (let td' = td\<lparr>isRefreshing := True\<rparr>
                          in (AwaitFetch \<lparr> p_realmId = r, p_tokenData = td' \<rparr>,
                              s\<lparr>tokenStore := AList.update r td' (tokenStore s)\<rparr>))
                    else (Finished (Inr (access_of td)), s)))"

text \<open>
  Every failure inside the \<open>try\<close> block reaches \<open>catch (refreshError)\<close>, which clears the
  flag on the captured object, writes that object back with \<open>tokenStore.set\<close> and rethrows.
\<close>

definition getAccessToken_resume ::
  "env \<Rightarrow> pending_refresh \<Rightarrow> fetch_result \<Rightarrow> int \<Rightarrow> server_state \<Rightarrow> (string + access_result) \<times> server_state" where
  "getAccessToken_resume e p reply t1 s =
     (let r = p_realmId p;
          td = p_tokenData p;
          caught = s\<lparr>tokenStore := AList.update r (td\<lparr>isRefreshing := False\<rparr>) (tokenStore s)\<rparr>
      in case reply of
           Rejected msg \<Rightarrow> (Inl msg, caught)
         | Resolved resp \<Rightarrow>
             if \<not> ok resp
             then (Inl (''Failed to refresh token: '' @ error_detail resp), caught)
             else (case json resp of
                     Inl msg \<Rightarrow> (Inl msg, caught)
                   | Inr new \<Rightarrow>
                       (let td' = refreshed_record e r td new t1
                        in (Inr (access_of td'),
                            s\<lparr>tokenStore := AList.update r td' (tokenStore s)\<rparr>))))"

definition getAccessToken ::
  "env \<Rightarrow> string option \<Rightarrow> int \<Rightarrow> fetch_result \<Rightarrow> int \<Rightarrow> server_state \<Rightarrow> (string + access_result) \<times> server_state" where
  "getAccessToken e rid t0 reply t1 s =
     (case getAccessToken_begin rid t0 s of
        (Finished res, s') \<Rightarrow> (res, s')
      | (AwaitFetch p, s') \<Rightarrow> getAccessToken_resume e p reply t1 s')"

subsection \<open>GET /api/oauth/token\<close>

record token_info =
  ti_accessToken :: "string option"
  ti_realmId :: string
  ti_expiresAt :: jsnum
  ti_expiresIn :: jsnum

datatype token_response =
    TokenBadRequest
  | TokenNotConnected
  | TokenRefreshFailed
  | TokenOk token_info
  | TokenFailed string

text \<open>
  \<open>TokenBadRequest\<close> is the 400 reply, \<open>TokenNotConnected\<close> the 404 with
  \<open>requiresAuth\<close>, \<open>TokenRefreshFailed\<close> the 401 with \<open>requiresReconnect\<close>,
  \<open>TokenFailed\<close> the 500 of the outer \<open>catch\<close>.
\<close>

definition token_info_of :: "token_data \<Rightarrow> int \<Rightarrow> token_info" where
  "token_info_of td now =
     \<lparr> ti_accessToken = accessToken td,
       ti_realmId = realmId td,
       ti_expiresAt = expiresAt td,
       ti_expiresIn = seconds_left (js_sub (expiresAt td) (Some now)) \<rparr>"

definition token_route_begin ::
  "string option \<Rightarrow> int \<Rightarrow> server_state \<Rightarrow> token_response phase \<times> server_state" where
  "token_route_begin rid t0 s =
     (case rid of
        None \<Rightarrow> (Finished TokenBadRequest, s)
      | Some r \<Rightarrow>
          if r = [] then (Finished TokenBadRequest, s)
          else (case map_of (tokenStore s) r of
                  None \<Rightarrow> (Finished TokenNotConnected, s)
                | Some td \<Rightarrow>
                    if needsRefresh t0 td \<and> \<not> isRefreshing td
                    then (let td' = td\<lparr>isRefreshing := True\<rparr>
                          in (AwaitFetch \<lparr> p_realmId = r, p_tokenData = td' \<rparr>,
                              s\<lparr>tokenStore := AList.update r td' (tokenStore s)\<rparr>))
                    else (Finished (TokenOk (token_info_of td t0)), s)))"

text \<open>
  When the provider answers with a non-ok status the handler only assigns
  \<open>tokenData.isRefreshing = false\<close>, without \<open>tokenStore.set\<close>. \<open>tokenData\<close> is the very
  object that \<open>_begin\<close> put in the map, so the assignment shows in the store as long as the
  entry still holds that object; an entry replaced or deleted in the meantime is untouched.
  Records here are values, so "the same object" is tested as "an equal record": the two
  agree unless, during the \<open>await\<close>, another request has stored under this key a new
  record equal in every field to the captured one, flag included. The properties below
  that meet this branch either have only calls of \<open>_begin\<close> between \<open>_begin\<close> and
  \<open>_resume\<close>, which store nothing while the flag is set, or hold for both outcomes of
  the test.
\<close>

definition token_route_resume ::
  "env \<Rightarrow> pending_refresh \<Rightarrow> fetch_result \<Rightarrow> int \<Rightarrow> server_state \<Rightarrow> token_response \<times> server_state" where
  "token_route_resume e p reply t1 s =
     (let r = p_realmId p;
          td = p_tokenData p;
          caught = s\<lparr>tokenStore := AList.update r (td\<lparr>isRefreshing := False\<rparr>) (tokenStore s)\<rparr>
      in case reply of
           Rejected msg \<Rightarrow> (TokenFailed (''Failed to get token: '' @ msg), caught)
         | Resolved resp \<Rightarrow>
             if ok resp
             then (case json resp of
                     Inl msg \<Rightarrow> (TokenFailed (''Failed to get token: '' @ msg), caught)
                   | Inr new \<Rightarrow>
                       (let td' = refreshed_record e r td new t1
                        in (TokenOk (token_info_of td' t1),
                            s\<lparr>tokenStore := AList.update r td' (tokenStore s)\<rparr>)))
             else (TokenRefreshFailed,
                   if map_of (tokenStore s) r = Some td then caught else s))"

definition token_route ::
  "env \<Rightarrow> string option \<Rightarrow> int \<Rightarrow> fetch_result \<Rightarrow> int \<Rightarrow> server_state \<Rightarrow> token_response \<times> server_state" where
  "token_route e rid t0 reply t1 s =
     (case token_route_begin rid t0 s of
        (Finished res, s') \<Rightarrow> (res, s')
      | (AwaitFetch p, s') \<Rightarrow> token_route_resume e p reply t1 s')"

subsection \<open>Several calls of getAccessToken in flight\<close>

text \<open>
  \<open>start_calls rid ts s\<close> starts one call of \<open>getAccessToken(rid)\<close> for every element of
  \<open>ts\<close> (the value of \<open>Date.now()\<close> in that call), in this order, before the provider has
  answered any of them. \<open>finish_calls\<close> then delivers the provider's reply to every call
  that is suspended at its \<open>await\<close>. \<open>network_calls\<close> counts the calls of \<open>fetch\<close>.
\<close>

fun start_calls ::
  "string option \<Rightarrow> int list \<Rightarrow> server_state \<Rightarrow> (string + access_result) phase list \<times> server_state" where
  "start_calls rid [] s = ([], s)"
| "start_calls rid (t # ts) s =
     (case getAccessToken_begin rid t s of
        (ph, s') \<Rightarrow> (case start_calls rid ts s' of (phs, s'') \<Rightarrow> (ph # phs, s'')))"

fun finish_calls ::
  "env \<Rightarrow> (string + access_result) phase list \<Rightarrow> fetch_result \<Rightarrow> int \<Rightarrow> server_state
     \<Rightarrow> (string + access_result) list \<times> server_state" where
  "finish_calls e [] reply t1 s = ([], s)"
| "finish_calls e (Finished res # phs) reply t1 s =
     (case finish_calls e phs reply t1 s of (rs, s') \<Rightarrow> (res # rs, s'))"
| "finish_calls e (AwaitFetch p # phs) reply t1 s =
     (case getAccessToken_resume e p reply t1 s of
        (res, s') \<Rightarrow> (case finish_calls e phs reply t1 s' of (rs, s'') \<Rightarrow> (res # rs, s'')))"

fun is_await :: "'r phase \<Rightarrow> bool" where
  "is_await (AwaitFetch _) = True"
| "is_await (Finished _) = False"

definition network_calls :: "'r phase list \<Rightarrow> nat" where
  "network_calls phs = length (filter is_await phs)"

definition concurrent_getAccessToken ::
  "env \<Rightarrow> string option \<Rightarrow> int list \<Rightarrow> fetch_result \<Rightarrow> int \<Rightarrow> server_state
     \<Rightarrow> (string + access_result) list \<times> server_state" where
  "concurrent_getAccessToken e rid ts reply t1 s =
     (case start_calls rid ts s of (phs, s') \<Rightarrow> finish_calls e phs reply t1 s')"

text \<open>The same for requests to \<open>GET /token\<close>, whose handler has the same guard.\<close>

fun start_token_calls ::
  "string option \<Rightarrow> int list \<Rightarrow> server_state \<Rightarrow> token_response phase list \<times> server_state" where
  "start_token_calls rid [] s = ([], s)"
| "start_token_calls rid (t # ts) s =
     (case token_route_begin rid t s of
        (ph, s') \<Rightarrow> (case start_token_calls rid ts s' of (phs, s'') \<Rightarrow> (ph # phs, s'')))"

fun finish_token_calls ::
  "env \<Rightarrow> token_response phase list \<Rightarrow> fetch_result \<Rightarrow> int \<Rightarrow> server_state
     \<Rightarrow> token_response list \<times> server_state" where
  "finish_token_calls e [] reply t1 s = ([], s)"
| "finish_token_calls e (Finished res # phs) reply t1 s =
     (case finish_token_calls e phs reply t1 s of (rs, s') \<Rightarrow> (res # rs, s'))"
| "finish_token_calls e (AwaitFetch p # phs) reply t1 s =
     (case token_route_resume e p reply t1 s of
        (res, s') \<Rightarrow> (case finish_token_calls e phs reply t1 s' of (rs, s'') \<Rightarrow> (res # rs, s'')))"

definition concurrent_token_route ::
  "env \<Rightarrow> string option \<Rightarrow> int list \<Rightarrow> fetch_result \<Rightarrow> int \<Rightarrow> server_state
     \<Rightarrow> token_response list \<times> server_state" where
  "concurrent_token_route e rid ts reply t1 s =
     (case start_token_calls rid ts s of (phs, s') \<Rightarrow> finish_token_calls e phs reply t1 s')"

section \<open>GET /api/oauth/authorize\<close>

record auth_url =
  au_base :: string
  au_client_id :: string
  au_response_type :: string
  au_scope :: string
  au_redirect_uri :: string
  au_state :: string

datatype authorize_response =
    AuthorizeNotConfigured
  | AuthorizeOk auth_url string

text \<open>
  The loop \<open>for (const [key, value] of oauthStateStore.entries())\<close> that deletes every
  entry whose \<open>createdAt\<close> is before \<open>tenMinutesAgo\<close>: the first list is what is left to
  visit, the second the store.
\<close>

fun purge_states :: "int \<Rightarrow> (string \<times> state_record) list \<Rightarrow> (string \<times> state_record) list
    \<Rightarrow> (string \<times> state_record) list" where
  "purge_states tenMinutesAgo [] store = store"
| "purge_states tenMinutesAgo ((key, val) # es) store =
     purge_states tenMinutesAgo es
       (if createdAt val < tenMinutesAgo then AList.delete key store else store)"

text \<open>
  \<open>origin\<close> is \<open>${req.protocol}://${req.get('host')}\<close>; \<open>st\<close> is the value of
  \<open>crypto.randomBytes(32).toString('hex')\<close>. Both deployments in \<open>OAUTH_CONFIG\<close> have the
  same \<open>authUrl\<close>.
\<close>

definition authorize_route ::
  "env \<Rightarrow> string \<Rightarrow> string \<Rightarrow> int \<Rightarrow> server_state \<Rightarrow> authorize_response \<times> server_state" where
  "authorize_route e origin st now s =
     (if \<not> truthy_str (QUICKBOOKS_CLIENT_ID e) \<or> \<not> truthy_str (QUICKBOOKS_CLIENT_SECRET e)
      then (AuthorizeNotConfigured, s)
      else
        (let redirect = js_or_default (QUICKBOOKS_REDIRECT_URI e) (origin @ ''/api/oauth/callback'');
             scope = js_or_default (QUICKBOOKS_SCOPE e) ''com.intuit.quickbooks.accounting'';
             store1 = AList.update st \<lparr> createdAt = now, redirectUri = redirect \<rparr> (oauthStateStore s);
             tenMinutesAgo = now - 10 * 60 * 1000;
             store2 = purge_states tenMinutesAgo store1 store1
         in (AuthorizeOk
               \<lparr> au_base = ''https://appcenter.intuit.com/connect/oauth2'',
                 au_client_id = js_or_default (QUICKBOOKS_CLIENT_ID e) [],
                 au_response_type = ''code'',
                 au_scope = scope,
                 au_redirect_uri = redirect,
                 au_state = st \<rparr> st,
             s\<lparr>oauthStateStore := store2\<rparr>)))"

section \<open>The OAuth callback\<close>

text \<open>
  A redirect to \<open>base/?oauth_error=message\<close> or to
  \<open>base/?oauth_success=true&realmId=realm\<close>.
\<close>

datatype redirect =
    Redirect_oauth_error string string
  | Redirect_oauth_success string string

text \<open>The record written by the callback; it has no \<open>isRefreshing\<close> field.\<close>

definition callback_record :: "env \<Rightarrow> string \<Rightarrow> token_json \<Rightarrow> int \<Rightarrow> token_data" where
  "callback_record e rid d now =
     \<lparr> accessToken = access_token d,
       refreshToken = refresh_token d,
       expiresAt = js_add (Some now) (js_mul (expires_in d) (Some 1000)),
       refreshTokenExpiresAt = js_add (Some now) (js_mul (x_refresh_token_expires_in d) (Some 1000)),
       realmId = rid,
       environment = env_environment e,
       updatedAt = now,
       isRefreshing = False \<rparr>"

text \<open>
  \<open>router.get('/callback')\<close> and \<open>app.get('/callback')\<close> are the same code, except that the
  first sends its error redirects to \<open>/?oauth_error=...\<close> and the second to
  \<open>${frontendUrl}/?oauth_error=...\<close>; \<open>errBase\<close> is that prefix. \<open>now\<close> is \<open>Date.now()\<close>
  after the \<open>await\<close>.
\<close>

definition handle_callback ::
  "string \<Rightarrow> env \<Rightarrow> string option \<Rightarrow> string option \<Rightarrow> string option \<Rightarrow> string option
     \<Rightarrow> fetch_result \<Rightarrow> int \<Rightarrow> server_state \<Rightarrow> redirect \<times> server_state" where
  "handle_callback errBase e code state rid err reply now s =
     (if truthy_str err then (Redirect_oauth_error errBase (js_or_default err []), s)
      else if \<not> truthy_str code \<or> \<not> truthy_str state
      then (Redirect_oauth_error errBase ''Missing authorization code or state'', s)
      else
        (let st = js_or_default state []
         in case map_of (oauthStateStore s) st of
              None \<Rightarrow> (Redirect_oauth_error errBase ''Invalid or expired state parameter'', s)
            | Some stateData \<Rightarrow>
                (let s1 = s\<lparr>oauthStateStore := AList.delete st (oauthStateStore s)\<rparr>
                 in case reply of
                      Rejected msg \<Rightarrow>
                        (Redirect_oauth_error errBase (''OAuth callback failed: '' @ msg), s1)
                    | Resolved resp \<Rightarrow>
                        if \<not> ok resp
                        then (Redirect_oauth_error errBase
                                ''Failed to exchange authorization code for tokens'', s1)
                        else (case json resp of
                                Inl msg \<Rightarrow>
                                  (Redirect_oauth_error errBase (''OAuth callback failed: '' @ msg), s1)
                              | Inr d \<Rightarrow>
                                  (Redirect_oauth_success (env_frontendUrl e) (js_or_default rid []),
                                   if truthy_str rid
                                   then s1\<lparr>tokenStore :=
                                          AList.update (js_or_default rid [])
                                            (callback_record e (js_or_default rid []) d now)
                                            (tokenStore s1)\<rparr>
                                   else s1)))))"

definition router_callback ::
  "env \<Rightarrow> string option \<Rightarrow> string option \<Rightarrow> string option \<Rightarrow> string option
     \<Rightarrow> fetch_result \<Rightarrow> int \<Rightarrow> server_state \<Rightarrow> redirect \<times> server_state" where
  "router_callback e = handle_callback [] e"

definition app_callback ::
  "env \<Rightarrow> string option \<Rightarrow> string option \<Rightarrow> string option \<Rightarrow> string option
     \<Rightarrow> fetch_result \<Rightarrow> int \<Rightarrow> server_state \<Rightarrow> redirect \<times> server_state" where
  "app_callback e = handle_callback (env_frontendUrl e) e"

section \<open>Reading the responses\<close>

fun revoke_success :: "revoke_response \<Rightarrow> bool" where
  "revoke_success RevokeBadRequest = False"
| "revoke_success (RevokeOk _) = True"

section \<open>States the server can reach\<close>

text \<open>
  \<open>process.env\<close> is read but never written by the server, so one configuration \<open>e\<close> holds
  for the life of the process. \<open>reachable e s gs ts\<close>: after some sequence of requests the
  stores are \<open>s\<close>, the calls of \<open>getAccessToken\<close> suspended at their \<open>await\<close> are \<open>gs\<close>
  and those of the \<open>/token\<close> handler are \<open>ts\<close>. The two token accessors take their two
  steps separately, so other requests may run in between; the other handlers are taken as
  one step each.
\<close>

inductive reachable :: "env \<Rightarrow> server_state \<Rightarrow> pending_refresh list \<Rightarrow> pending_refresh list \<Rightarrow> bool"
  for e :: env where
  started: "reachable e \<lparr> tokenStore = [], oauthStateStore = [] \<rparr> [] []"
| authorized: "reachable e s gs ts \<Longrightarrow> reachable e (snd (authorize_route e origin st now s)) gs ts"
| called_back: "reachable e s gs ts \<Longrightarrow>
     reachable e (snd (handle_callback b e code state rid err reply now s)) gs ts"
| refreshed: "reachable e s gs ts \<Longrightarrow> reachable e (snd (refresh_route e rid t0 reply t1 s)) gs ts"
| revoked: "reachable e s gs ts \<Longrightarrow> reachable e (snd (revoke_route rid reply s)) gs ts"
| get_finished: "reachable e s gs ts \<Longrightarrow> getAccessToken_begin rid t0 s = (Finished res, s') \<Longrightarrow>
     reachable e s' gs ts"
| get_suspended: "reachable e s gs ts \<Longrightarrow> getAccessToken_begin rid t0 s = (AwaitFetch p, s') \<Longrightarrow>
     reachable e s' (p # gs) ts"
| get_resumed: "reachable e s gs ts \<Longrightarrow> p \<in> set gs \<Longrightarrow>
     reachable e (snd (getAccessToken_resume e p reply t1 s)) (remove1 p gs) ts"
| token_finished: "reachable e s gs ts \<Longrightarrow> token_route_begin rid t0 s = (Finished tres, s') \<Longrightarrow>
     reachable e s' gs ts"
| token_suspended: "reachable e s gs ts \<Longrightarrow> token_route_begin rid t0 s = (AwaitFetch p, s') \<Longrightarrow>
     reachable e s' gs (p # ts)"
| token_resumed: "reachable e s gs ts \<Longrightarrow> p \<in> set ts \<Longrightarrow>
     reachable e (snd (token_route_resume e p reply t1 s)) gs (remove1 p ts)"

text \<open>Every stored record, and every record held by a suspended call, carries the
  deployment name of the configuration.\<close>

definition env_consistent :: "env \<Rightarrow> (string \<times> token_data) list \<Rightarrow> bool" where
  "env_consistent e store = list_all (\<lambda>(k, td). environment td = env_environment e) store"

definition pending_consistent :: "env \<Rightarrow> pending_refresh list \<Rightarrow> bool" where
  "pending_consistent e ps = list_all (\<lambda>p. environment (p_tokenData p) = env_environment e) ps"

section \<open>A configuration, stores and provider replies to compute with\<close>

definition sample_env :: env where
  "sample_env = \<lparr> QUICKBOOKS_CLIENT_ID = Some ''id'', QUICKBOOKS_CLIENT_SECRET = Some ''secret'',
      QUICKBOOKS_REDIRECT_URI = None, QUICKBOOKS_ENVIRONMENT = None, QUICKBOOKS_SCOPE = None,
      FRONTEND_URL = None \<rparr>"

definition sample_token :: token_data where
  "sample_token = \<lparr> accessToken = Some ''at-old'', refreshToken = Some ''rt-old'',
      expiresAt = Some 3600000, refreshTokenExpiresAt = Some 8640000000, realmId = ''co-1'',
      environment = ''sandbox'', updatedAt = 0, isRefreshing = False \<rparr>"

definition sample_state_record :: state_record where
  "sample_state_record = \<lparr> createdAt = 0, redirectUri = ''http://localhost:3001/api/oauth/callback'' \<rparr>"

definition sample_state :: server_state where
  "sample_state = \<lparr> tokenStore = [(''co-1'', sample_token)],
      oauthStateStore = [(''s1'', sample_state_record)] \<rparr>"

text \<open>The stores after one \<open>/authorize\<close> request at time 0 that drew the state \<open>s1\<close>.\<close>

definition sample_aged_state :: server_state where
  "sample_aged_state = \<lparr> tokenStore = [], oauthStateStore = [(''s1'', sample_state_record)] \<rparr>"

definition sample_json :: token_json where
  "sample_json = \<lparr> access_token = Some ''at-new'', refresh_token = Some ''rt-new'',
      expires_in = Some 3600, x_refresh_token_expires_in = Some 8640000, error = None \<rparr>"

definition sample_ok_response :: response where
  "sample_ok_response = \<lparr> ok = True, status = 200, statusText = ''OK'', json = Inr sample_json \<rparr>"

definition sample_ok :: fetch_result where
  "sample_ok = Resolved sample_ok_response"

definition sample_not_ok_response :: response where
  "sample_not_ok_response = \<lparr> ok = False, status = 400, statusText = ''Bad Request'',
      json = Inr \<lparr> access_token = None, refresh_token = None,
                   expires_in = None, x_refresh_token_expires_in = None,
                   error = Some ''invalid_grant'' \<rparr> \<rparr>"

definition sample_not_ok :: fetch_result where
  "sample_not_ok = Resolved sample_not_ok_response"

section \<open>Properties of the handlers\<close>

subsection \<open>Tenants without a record\<close>

text \<open>
  C7. For a tenant \<open>r\<close> (a non-empty realm id) with no entry in \<open>tokenStore\<close>,
  \<open>getAccessToken\<close> throws the "No OAuth tokens found" error, \<open>GET /token\<close> answers 404
  with \<open>requiresAuth\<close>, and \<open>GET /status\<close> answers \<open>connected: false\<close>. Both token
  accessors return the state they were given, so no record is created or changed; the
  status handler only reads.
\<close>

theorem no_record_not_connected:
  assumes "r \<noteq> []" and "map_of (tokenStore s) r = None"
  shows "getAccessToken e (Some r) t0 reply t1 s =
           (Inl ''No OAuth tokens found for this realmId. Please connect your QuickBooks account via OAuth.'', s)
       \<and> token_route e (Some r) t0 reply t1 s = (TokenNotConnected, s)
       \<and> \<not> connected (status_route (Some r) now s)"
  using assms
  by (simp add: getAccessToken_def getAccessToken_begin_def token_route_def token_route_begin_def
      status_route_def)

theorem no_record_not_connected_witness:
  "''co-2'' \<noteq> [] \<and> map_of (tokenStore sample_state) ''co-2'' = None
   \<and> getAccessToken sample_env (Some ''co-2'') 0 sample_ok 1 sample_state =
           (Inl ''No OAuth tokens found for this realmId. Please connect your QuickBooks account via OAuth.'', sample_state)
   \<and> token_route sample_env (Some ''co-2'') 0 sample_ok 1 sample_state = (TokenNotConnected, sample_state)
   \<and> \<not> connected (status_route (Some ''co-2'') 0 sample_state)"
  using no_record_not_connected [of "''co-2''" sample_state sample_env 0 sample_ok 1 0]
  by (simp add: sample_state_def)

subsection \<open>Revoke\<close>

text \<open>
  C8. For every tenant \<open>r\<close>, whatever the provider's revoke endpoint does (\<open>reply\<close> is
  arbitrary: a rejected \<open>fetch\<close>, an error status, a success) and whether or not a record
  existed, \<open>POST /revoke\<close> answers \<open>success: true\<close>, leaves no record for \<open>r\<close>, and a
  following \<open>GET /status\<close> answers \<open>connected: false\<close>.
\<close>

theorem revoke_then_status_disconnected:
  assumes "r \<noteq> []"
  shows "revoke_success (fst (revoke_route (Some r) reply s))
       \<and> map_of (tokenStore (snd (revoke_route (Some r) reply s))) r = None
       \<and> \<not> connected (status_route (Some r) now (snd (revoke_route (Some r) reply s)))"
  using assms
  by (simp add: revoke_route_def status_route_def delete_conv' split: option.splits)

theorem revoke_then_status_disconnected_witness:
  "''co-1'' \<noteq> [] \<and> revoke_success (fst (revoke_route (Some ''co-1'') (Rejected ''ETIMEDOUT'') sample_state))
       \<and> map_of (tokenStore (snd (revoke_route (Some ''co-1'') (Rejected ''ETIMEDOUT'') sample_state))) ''co-1'' = None
       \<and> \<not> connected (status_route (Some ''co-1'') 5 (snd (revoke_route (Some ''co-1'') (Rejected ''ETIMEDOUT'') sample_state)))"
  using revoke_then_status_disconnected [of "''co-1''" "Rejected ''ETIMEDOUT''" sample_state 5]
  by simp

subsection \<open>Explicit refresh with an expired refresh token\<close>

text \<open>
  C6. For a tenant \<open>r\<close> whose record holds a refresh token whose expiry \<open>x\<close> has passed
  (\<open>x \<le> Date.now()\<close>), \<open>POST /refresh\<close> answers 401 "Refresh token has expired" with
  \<open>requiresReconnect\<close>, deletes the record without calling the provider, and a following
  \<open>GET /status\<close> answers \<open>connected: false\<close>.
\<close>

theorem refresh_token_expired_deletes_record:
  assumes "r \<noteq> []" and "map_of (tokenStore s) r = Some td" and "truthy_str (refreshToken td)"
    and "refreshTokenExpiresAt td = Some x" and "x \<le> t0"
  shows "refresh_route e (Some r) t0 reply t1 s =
           (RefreshTokenExpired, s\<lparr>tokenStore := AList.delete r (tokenStore s)\<rparr>)
       \<and> \<not> connected (status_route (Some r) now (snd (refresh_route e (Some r) t0 reply t1 s)))"
  using assms
  by (simp add: refresh_route_def status_route_def js_ge_def delete_conv')

theorem refresh_token_expired_deletes_record_witness:
  "''co-1'' \<noteq> [] \<and> map_of (tokenStore sample_state) ''co-1'' = Some sample_token
   \<and> truthy_str (refreshToken sample_token)
   \<and> refreshTokenExpiresAt sample_token = Some 8640000000 \<and> (8640000000::int) \<le> 8640000001
   \<and> refresh_route sample_env (Some ''co-1'') 8640000001 sample_ok 8640000002 sample_state =
           (RefreshTokenExpired, sample_state\<lparr>tokenStore := AList.delete ''co-1'' (tokenStore sample_state)\<rparr>)
   \<and> \<not> connected (status_route (Some ''co-1'') 8640000003
          (snd (refresh_route sample_env (Some ''co-1'') 8640000001 sample_ok 8640000002 sample_state)))"
proof -
  have h1: "''co-1'' \<noteq> []" by simp
  have h2: "map_of (tokenStore sample_state) ''co-1'' = Some sample_token"
    by (simp add: sample_state_def)
  have h3: "truthy_str (refreshToken sample_token)"
    by (simp add: sample_token_def truthy_str_def)
  have h4: "refreshTokenExpiresAt sample_token = Some 8640000000"
    by (simp add: sample_token_def)
  have h5: "(8640000000::int) \<le> 8640000001" by simp
  from refresh_token_expired_deletes_record [OF h1 h2 h3 h4 h5]
  show ?thesis using h1 h2 h3 h4 h5 by blast
qed

subsection \<open>A failed automatic refresh\<close>

text \<open>
  C10. In \<open>getAccessToken\<close>, when the automatic refresh fails (the provider answers with a
  non-ok status, or \<open>fetch\<close> throws), the call fails with the error, the record of the tenant
  stays in \<open>tokenStore\<close> with every field as before except \<open>isRefreshing\<close>, which is
  \<open>false\<close>, and nothing else in either store changes.
\<close>

theorem getAccessToken_failure_keeps_record:
  assumes "r \<noteq> []" and "map_of (tokenStore s) r = Some td"
    and "needsRefresh t0 td" and "\<not> isRefreshing td"
    and "case reply of Rejected msg \<Rightarrow> True | Resolved resp \<Rightarrow> \<not> ok resp"
  shows "isl (fst (getAccessToken e (Some r) t0 reply t1 s))
       \<and> map_of (tokenStore (snd (getAccessToken e (Some r) t0 reply t1 s))) r
           = Some (td\<lparr>isRefreshing := False\<rparr>)
       \<and> (\<forall>r'. r' \<noteq> r \<longrightarrow>
             map_of (tokenStore (snd (getAccessToken e (Some r) t0 reply t1 s))) r'
               = map_of (tokenStore s) r')
       \<and> oauthStateStore (snd (getAccessToken e (Some r) t0 reply t1 s)) = oauthStateStore s"
  using assms
  by (cases reply)
     (simp_all add: getAccessToken_def getAccessToken_begin_def getAccessToken_resume_def
        Let_def update_conv')

theorem getAccessToken_failure_keeps_record_witness:
  "''co-1'' \<noteq> [] \<and> map_of (tokenStore sample_state) ''co-1'' = Some sample_token
   \<and> needsRefresh 3500000 sample_token \<and> \<not> isRefreshing sample_token
   \<and> (case sample_not_ok of Rejected msg \<Rightarrow> True | Resolved resp \<Rightarrow> \<not> ok resp)
   \<and> isl (fst (getAccessToken sample_env (Some ''co-1'') 3500000 sample_not_ok 3500001 sample_state))
   \<and> map_of (tokenStore (snd (getAccessToken sample_env (Some ''co-1'') 3500000 sample_not_ok
        3500001 sample_state))) ''co-1'' = Some (sample_token\<lparr>isRefreshing := False\<rparr>)"
proof -
  have h1: "''co-1'' \<noteq> []" by simp
  have h2: "map_of (tokenStore sample_state) ''co-1'' = Some sample_token"
    by (simp add: sample_state_def)
  have h3: "needsRefresh 3500000 sample_token"
    by (simp add: needsRefresh_def sample_token_def js_ge_def js_sub_def)
  have h4: "\<not> isRefreshing sample_token" by (simp add: sample_token_def)
  have h5: "case sample_not_ok of Rejected msg \<Rightarrow> True | Resolved resp \<Rightarrow> \<not> ok resp"
    by (simp add: sample_not_ok_def sample_not_ok_response_def)
  from getAccessToken_failure_keeps_record [where e = sample_env and ?t1.0 = 3500001,
      OF h1 h2 h3 h4 h5]
  show ?thesis using h1 h2 h3 h4 h5 by blast
qed

subsection \<open>The anti-forgery state\<close>

text \<open>
  C5. A callback without \<open>error\<close>, with a code and with a state that is in
  \<open>oauthStateStore\<close> removes that state from the store, whatever the provider then answers
  to the code exchange; the same \<open>(code, state)\<close> presented again is answered with
  "Invalid or expired state parameter" and changes nothing.
\<close>

theorem callback_state_single_use:
  assumes "\<not> truthy_str err" and "truthy_str code" and "st \<noteq> []"
    and "map_of (oauthStateStore s) st = Some sr"
  shows "map_of (oauthStateStore (snd (handle_callback b e code (Some st) rid err reply now s))) st = None
       \<and> handle_callback b e code (Some st) rid err reply' now'
            (snd (handle_callback b e code (Some st) rid err reply now s))
           = (Redirect_oauth_error b ''Invalid or expired state parameter'',
              snd (handle_callback b e code (Some st) rid err reply now s))"
proof -
  let ?s1 = "snd (handle_callback b e code (Some st) rid err reply now s)"
  have gone: "map_of (oauthStateStore ?s1) st = None"
    using assms
    by (simp add: handle_callback_def Let_def truthy_str_def js_or_default_def delete_conv'
        split: fetch_result.splits sum.splits option.splits)
  have "handle_callback b e code (Some st) rid err reply' now' ?s1
          = (Redirect_oauth_error b ''Invalid or expired state parameter'', ?s1)"
    using assms(1-3) gone
    by (simp add: handle_callback_def [of b e code "Some st" rid err reply' now'] Let_def
        truthy_str_def js_or_default_def)
  with gone show ?thesis by simp
qed

theorem callback_state_single_use_witness:
  "\<not> truthy_str None \<and> truthy_str (Some ''code'') \<and> ''s1'' \<noteq> []
   \<and> map_of (oauthStateStore sample_aged_state) ''s1'' = Some sample_state_record
   \<and> map_of (oauthStateStore (snd (handle_callback [] sample_env (Some ''code'') (Some ''s1'')
        (Some ''co-1'') None sample_ok 1000 sample_aged_state))) ''s1'' = None
   \<and> handle_callback [] sample_env (Some ''code'') (Some ''s1'') (Some ''co-1'') None sample_ok 2000
        (snd (handle_callback [] sample_env (Some ''code'') (Some ''s1'') (Some ''co-1'') None
               sample_ok 1000 sample_aged_state))
      = (Redirect_oauth_error [] ''Invalid or expired state parameter'',
         snd (handle_callback [] sample_env (Some ''code'') (Some ''s1'') (Some ''co-1'') None
               sample_ok 1000 sample_aged_state))"
proof -
  have h1: "\<not> truthy_str None" and h2: "truthy_str (Some ''code'')"
    by (simp_all add: truthy_str_def)
  have h3: "''s1'' \<noteq> []" by simp
  have h4: "map_of (oauthStateStore sample_aged_state) ''s1'' = Some sample_state_record"
    by (simp add: sample_aged_state_def)
  from callback_state_single_use [where b = "[]" and e = sample_env and rid = "Some ''co-1''"
      and reply = sample_ok and now = 1000 and reply' = sample_ok and now' = 2000,
      OF h1 h2 h3 h4]
  show ?thesis using h1 h2 h3 h4 by blast
qed

text \<open>The purge loop of \<open>/authorize\<close> keeps exactly the entries whose key has no visited
  entry older than the bound.\<close>

lemma purge_states_filter:
  "purge_states t es store =
     filter (\<lambda>p. \<not> (\<exists>v. (fst p, v) \<in> set es \<and> createdAt v < t)) store"
proof (induction es arbitrary: store)
  case Nil
  then show ?case by simp
next
  case (Cons a es)
  obtain k v where a: "a = (k, v)" by (cases a)
  show ?case
    unfolding a
    by (auto simp: Cons.IH AList.delete_eq intro!: filter_cong)
qed

lemma purge_states_old_gone:
  assumes "map_of store k = Some sr" and "createdAt sr < t"
  shows "map_of (purge_states t store store) k = None"
proof -
  have "(k, sr) \<in> set store" using assms(1) by (rule map_of_SomeD)
  then have "k \<notin> fst ` set (purge_states t store store)"
    using assms(2) by (auto simp: purge_states_filter)
  then show ?thesis by (simp add: map_of_eq_None_iff)
qed

lemma purge_states_remaining:
  assumes "map_of (purge_states t store store) k = Some sr"
  shows "\<not> createdAt sr < t"
proof -
  have "(k, sr) \<in> set (purge_states t store store)" using assms by (rule map_of_SomeD)
  then show ?thesis by (auto simp: purge_states_filter)
qed

text \<open>
  C2 as the specification states it fails: the state \<open>s1\<close> was issued at time 0 and is still
  in the store; the callback that presents it one hour later is answered with the success
  redirect, not with "Invalid or expired state parameter".
\<close>

theorem old_state_accepted_counterexample:
  "createdAt sample_state_record + 10 * 60 * 1000 < 3600000
   \<and> map_of (oauthStateStore sample_aged_state) ''s1'' = Some sample_state_record
   \<and> fst (router_callback sample_env (Some ''code'') (Some ''s1'') (Some ''co-1'') None sample_ok
          3600000 sample_aged_state)
        = Redirect_oauth_success ''http://localhost:5173'' ''co-1''"
  by (simp add: router_callback_def handle_callback_def sample_aged_state_def sample_ok_def
      sample_ok_response_def sample_state_record_def sample_env_def truthy_str_def
      js_or_default_def env_frontendUrl_def Let_def)

text \<open>
  C2, amended. The callback never reads \<open>createdAt\<close>: it rejects a state exactly when the
  state is not in \<open>oauthStateStore\<close>. The ten-minute limit is enforced by \<open>/authorize\<close>
  alone, which removes every record created more than ten minutes before it runs. So, for a
  well-formed callback presenting the state \<open>k\<close>:
  \<^item> once an \<open>/authorize\<close> request has run at a time \<open>now\<close> more than ten minutes after
    \<open>k\<close> was created (and has not drawn \<open>k\<close> again), the callback is answered with
    "Invalid or expired state parameter" and changes nothing;
  \<^item> after any \<open>/authorize\<close> request at time \<open>now\<close>, no record in the store is older than
    \<open>now\<close> minus ten minutes;
  \<^item> a state absent from the store is rejected, and a state present in the store is never
    rejected as invalid or expired, whatever its age.
\<close>

theorem state_expiry_by_purge:
  assumes "truthy_str (QUICKBOOKS_CLIENT_ID e)" and "truthy_str (QUICKBOOKS_CLIENT_SECRET e)"
    and "\<not> truthy_str err" and "truthy_str code" and "k \<noteq> []"
  shows "(\<forall>sr. map_of (oauthStateStore s) k = Some sr \<and> createdAt sr < now - 10 * 60 * 1000 \<and> k \<noteq> st
            \<longrightarrow> handle_callback b e code (Some k) rid err reply now'
                  (snd (authorize_route e origin st now s))
                = (Redirect_oauth_error b ''Invalid or expired state parameter'',
                   snd (authorize_route e origin st now s)))
       \<and> (\<forall>sr. map_of (oauthStateStore (snd (authorize_route e origin st now s))) k = Some sr
            \<longrightarrow> now - 10 * 60 * 1000 \<le> createdAt sr)
       \<and> (map_of (oauthStateStore s) k = None
            \<longrightarrow> handle_callback b e code (Some k) rid err reply now' s
                = (Redirect_oauth_error b ''Invalid or expired state parameter'', s))
       \<and> (\<forall>sr. map_of (oauthStateStore s) k = Some sr
            \<longrightarrow> fst (handle_callback b e code (Some k) rid err reply now' s)
                \<noteq> Redirect_oauth_error b ''Invalid or expired state parameter'')"
proof -
  let ?new = "\<lparr> createdAt = now,
      redirectUri = js_or_default (QUICKBOOKS_REDIRECT_URI e) (origin @ ''/api/oauth/callback'') \<rparr>"
  let ?store1 = "AList.update st ?new (oauthStateStore s)"
  let ?s1 = "snd (authorize_route e origin st now s)"
  have store: "oauthStateStore ?s1 = purge_states (now - 10 * 60 * 1000) ?store1 ?store1"
    using assms(1,2) by (simp add: authorize_route_def Let_def)
  have absent: "handle_callback b e code (Some k) rid err reply now' s'
                  = (Redirect_oauth_error b ''Invalid or expired state parameter'', s')"
    if "map_of (oauthStateStore s') k = None" for s'
    using that assms(3-5)
    by (simp add: handle_callback_def Let_def truthy_str_def js_or_default_def)
  have c1: "handle_callback b e code (Some k) rid err reply now' ?s1
              = (Redirect_oauth_error b ''Invalid or expired state parameter'', ?s1)"
    if "map_of (oauthStateStore s) k = Some sr" and "createdAt sr < now - 10 * 60 * 1000"
      and "k \<noteq> st" for sr
  proof -
    have "map_of ?store1 k = Some sr" using that(1,3) by (simp add: update_conv')
    then have "map_of (oauthStateStore ?s1) k = None"
      unfolding store using that(2) by (rule purge_states_old_gone)
    then show ?thesis by (rule absent)
  qed
  have c2: "now - 10 * 60 * 1000 \<le> createdAt sr"
    if "map_of (oauthStateStore ?s1) k = Some sr" for sr
    using purge_states_remaining [of "now - 10 * 60 * 1000" ?store1 k sr] that
    unfolding store by simp
  have c4: "fst (handle_callback b e code (Some k) rid err reply now' s)
              \<noteq> Redirect_oauth_error b ''Invalid or expired state parameter''"
    if "map_of (oauthStateStore s) k = Some sr" for sr
    using that assms(3-5)
    by (simp add: handle_callback_def Let_def truthy_str_def js_or_default_def
        split: fetch_result.splits sum.splits)
  show ?thesis using c1 c2 c4 absent by blast
qed

theorem state_expiry_by_purge_witness:
  "truthy_str (QUICKBOOKS_CLIENT_ID sample_env) \<and> truthy_str (QUICKBOOKS_CLIENT_SECRET sample_env)
   \<and> \<not> truthy_str None \<and> truthy_str (Some ''code'') \<and> ''s1'' \<noteq> []
   \<and> map_of (oauthStateStore sample_aged_state) ''s1'' = Some sample_state_record
   \<and> createdAt sample_state_record < 3600000 - 10 * 60 * 1000 \<and> ''s1'' \<noteq> ''s2''
   \<and> handle_callback [] sample_env (Some ''code'') (Some ''s1'') (Some ''co-1'') None sample_ok 3600001
        (snd (authorize_route sample_env ''http://localhost:3001'' ''s2'' 3600000 sample_aged_state))
      = (Redirect_oauth_error [] ''Invalid or expired state parameter'',
         snd (authorize_route sample_env ''http://localhost:3001'' ''s2'' 3600000 sample_aged_state))"
proof -
  have h1: "truthy_str (QUICKBOOKS_CLIENT_ID sample_env)"
    and h2: "truthy_str (QUICKBOOKS_CLIENT_SECRET sample_env)"
    by (simp_all add: sample_env_def truthy_str_def)
  have h3: "\<not> truthy_str None" and h4: "truthy_str (Some ''code'')"
    by (simp_all add: truthy_str_def)
  have h5: "''s1'' \<noteq> []" by simp
  have h6: "map_of (oauthStateStore sample_aged_state) ''s1'' = Some sample_state_record"
    by (simp add: sample_aged_state_def)
  have h7: "createdAt sample_state_record < 3600000 - 10 * 60 * 1000"
    by (simp add: sample_state_record_def)
  have h8: "''s1'' \<noteq> ''s2''" by simp
  from state_expiry_by_purge [OF h1 h2 h3 h4 h5, of sample_aged_state 3600000 "''s2''" "[]"
      "Some ''co-1''" sample_ok 3600001 "''http://localhost:3001''"] h6 h7 h8
  have "handle_callback [] sample_env (Some ''code'') (Some ''s1'') (Some ''co-1'') None sample_ok 3600001
        (snd (authorize_route sample_env ''http://localhost:3001'' ''s2'' 3600000 sample_aged_state))
      = (Redirect_oauth_error [] ''Invalid or expired state parameter'',
         snd (authorize_route sample_env ''http://localhost:3001'' ''s2'' 3600000 sample_aged_state))"
    by blast
  then show ?thesis using h1 h2 h3 h4 h5 h6 h7 h8 by simp
qed

subsection \<open>A refresh that the provider rejects\<close>

text \<open>
  C3 as the specification states it fails for the refresh inside \<open>getAccessToken\<close>: the
  provider answers 400 \<open>invalid_grant\<close>, the call throws, but the record is still stored
  and \<open>GET /status\<close> still answers \<open>connected: true\<close>.
\<close>

theorem rejected_auto_refresh_keeps_record_counterexample:
  "needsRefresh 3500000 sample_token \<and> \<not> isRefreshing sample_token
   \<and> fst (getAccessToken sample_env (Some ''co-1'') 3500000 sample_not_ok 3500001 sample_state)
       = Inl ''Failed to refresh token: invalid_grant''
   \<and> map_of (tokenStore (snd (getAccessToken sample_env (Some ''co-1'') 3500000 sample_not_ok
        3500001 sample_state))) ''co-1'' = Some sample_token
   \<and> connected (status_route (Some ''co-1'') 3500002
        (snd (getAccessToken sample_env (Some ''co-1'') 3500000 sample_not_ok 3500001 sample_state)))"
  by (simp add: getAccessToken_def getAccessToken_begin_def getAccessToken_resume_def
      sample_state_def sample_token_def sample_not_ok_def sample_not_ok_response_def
      needsRefresh_def js_ge_def js_sub_def error_detail_def js_or_default_def status_route_def
      Let_def)

text \<open>
  C3, amended. For a tenant \<open>r\<close> with a record, when the provider answers a refresh
  attempt with a non-ok status:
  \<^item> the explicit \<open>POST /refresh\<close> (reached when the record holds a refresh token that has
    not expired) deletes the record and answers with the provider's status and
    \<open>requiresReconnect\<close>, so a following \<open>GET /status\<close> answers \<open>connected: false\<close>;
  \<^item> the refresh performed inside \<open>getAccessToken\<close> and \<open>GET /token\<close> (reached when the
    access token needs a refresh and none is marked in flight) makes the call fail
    (\<open>getAccessToken\<close> throws, \<open>/token\<close> answers 401 with \<open>requiresReconnect\<close>) but
    keeps the record, with \<open>isRefreshing\<close> reset, so a following \<open>GET /status\<close> still
    answers \<open>connected: true\<close>.
\<close>

theorem provider_rejection_of_refresh:
  assumes "r \<noteq> []" and "map_of (tokenStore s) r = Some td" and "\<not> ok resp"
  shows "(truthy_str (refreshToken td) \<and> \<not> js_ge (Some t0) (refreshTokenExpiresAt td) \<longrightarrow>
            refresh_route e (Some r) t0 (Resolved resp) t1 s
              = (RefreshRejected (status resp) (''Failed to refresh token: '' @ error_detail resp),
                 s\<lparr>tokenStore := AList.delete r (tokenStore s)\<rparr>)
          \<and> \<not> connected (status_route (Some r) now
                 (snd (refresh_route e (Some r) t0 (Resolved resp) t1 s))))
       \<and> (needsRefresh t0 td \<and> \<not> isRefreshing td \<longrightarrow>
            getAccessToken e (Some r) t0 (Resolved resp) t1 s
              = (Inl (''Failed to refresh token: '' @ error_detail resp),
                 s\<lparr>tokenStore := AList.update r (td\<lparr>isRefreshing := False\<rparr>) (tokenStore s)\<rparr>)
          \<and> token_route e (Some r) t0 (Resolved resp) t1 s
              = (TokenRefreshFailed,
                 s\<lparr>tokenStore := AList.update r (td\<lparr>isRefreshing := False\<rparr>) (tokenStore s)\<rparr>)
          \<and> connected (status_route (Some r) now
                 (snd (getAccessToken e (Some r) t0 (Resolved resp) t1 s)))
          \<and> connected (status_route (Some r) now
                 (snd (token_route e (Some r) t0 (Resolved resp) t1 s))))"
proof -
  have a: "refresh_route e (Some r) t0 (Resolved resp) t1 s
              = (RefreshRejected (status resp) (''Failed to refresh token: '' @ error_detail resp),
                 s\<lparr>tokenStore := AList.delete r (tokenStore s)\<rparr>)"
    if "truthy_str (refreshToken td)" and "\<not> js_ge (Some t0) (refreshTokenExpiresAt td)"
    using that assms by (simp add: refresh_route_def)
  have a': "\<not> connected (status_route (Some r) now (s\<lparr>tokenStore := AList.delete r (tokenStore s)\<rparr>))"
    using assms(1) by (simp add: status_route_def delete_conv')
  have b: "getAccessToken e (Some r) t0 (Resolved resp) t1 s
              = (Inl (''Failed to refresh token: '' @ error_detail resp),
                 s\<lparr>tokenStore := AList.update r (td\<lparr>isRefreshing := False\<rparr>) (tokenStore s)\<rparr>)"
    if "needsRefresh t0 td" and "\<not> isRefreshing td"
    using that assms
    by (simp add: getAccessToken_def getAccessToken_begin_def getAccessToken_resume_def Let_def)
  have c: "token_route e (Some r) t0 (Resolved resp) t1 s
              = (TokenRefreshFailed,
                 s\<lparr>tokenStore := AList.update r (td\<lparr>isRefreshing := False\<rparr>) (tokenStore s)\<rparr>)"
    if "needsRefresh t0 td" and "\<not> isRefreshing td"
    using that assms
    by (simp add: token_route_def token_route_begin_def token_route_resume_def Let_def update_conv')
  have d: "connected (status_route (Some r) now
             (s\<lparr>tokenStore := AList.update r (td\<lparr>isRefreshing := False\<rparr>) (tokenStore s)\<rparr>))"
    using assms(1) by (simp add: status_route_def update_conv')
  show ?thesis using a a' b c d by simp
qed

theorem provider_rejection_of_refresh_witness:
  "''co-1'' \<noteq> [] \<and> map_of (tokenStore sample_state) ''co-1'' = Some sample_token
   \<and> \<not> ok sample_not_ok_response
   \<and> truthy_str (refreshToken sample_token)
   \<and> \<not> js_ge (Some 3500000) (refreshTokenExpiresAt sample_token)
   \<and> needsRefresh 3500000 sample_token \<and> \<not> isRefreshing sample_token
   \<and> \<not> connected (status_route (Some ''co-1'') 3500002
          (snd (refresh_route sample_env (Some ''co-1'') 3500000 (Resolved sample_not_ok_response)
                 3500001 sample_state)))
   \<and> connected (status_route (Some ''co-1'') 3500002
          (snd (getAccessToken sample_env (Some ''co-1'') 3500000 (Resolved sample_not_ok_response)
                 3500001 sample_state)))
   \<and> connected (status_route (Some ''co-1'') 3500002
          (snd (token_route sample_env (Some ''co-1'') 3500000 (Resolved sample_not_ok_response)
                 3500001 sample_state)))"
proof -
  have h1: "''co-1'' \<noteq> []" by simp
  have h2: "map_of (tokenStore sample_state) ''co-1'' = Some sample_token"
    by (simp add: sample_state_def)
  have h3: "\<not> ok sample_not_ok_response" by (simp add: sample_not_ok_response_def)
  have h4: "truthy_str (refreshToken sample_token)"
    by (simp add: sample_token_def truthy_str_def)
  have h5: "\<not> js_ge (Some 3500000) (refreshTokenExpiresAt sample_token)"
    by (simp add: sample_token_def js_ge_def)
  have h6: "needsRefresh 3500000 sample_token"
    by (simp add: needsRefresh_def sample_token_def js_ge_def js_sub_def)
  have h7: "\<not> isRefreshing sample_token" by (simp add: sample_token_def)
  from provider_rejection_of_refresh [where e = sample_env and ?t0.0 = 3500000
      and ?t1.0 = 3500001 and now = 3500002, OF h1 h2 h3] h4 h5 h6 h7
  show ?thesis using h1 h2 h3 by blast
qed

subsection \<open>A successful code exchange\<close>

text \<open>
  C4 as the specification states it fails in its last part: a callback that carries no
  \<open>realmId\<close> is answered with the success redirect although no record has been stored.
\<close>

theorem success_without_record_counterexample:
  "fst (router_callback sample_env (Some ''code'') (Some ''s1'') None None sample_ok 1000 sample_aged_state)
     = Redirect_oauth_success ''http://localhost:5173'' []
   \<and> tokenStore (snd (router_callback sample_env (Some ''code'') (Some ''s1'') None None sample_ok 1000
        sample_aged_state)) = []"
  by (simp add: router_callback_def handle_callback_def sample_aged_state_def sample_ok_def
      sample_ok_response_def sample_env_def truthy_str_def js_or_default_def env_frontendUrl_def
      Let_def)

lemma handle_callback_success_only:
  assumes "handle_callback b e code state rid err reply now s = (Redirect_oauth_success u r', s')"
    and "r' \<noteq> []"
  shows "\<exists>resp d. reply = Resolved resp \<and> ok resp \<and> json resp = Inr d
           \<and> rid = Some r' \<and> map_of (tokenStore s') r' = Some (callback_record e r' d now)"
  using assms
  by (auto simp: handle_callback_def Let_def truthy_str_def js_or_default_def update_conv'
      split: if_splits option.splits fetch_result.splits sum.splits)

text \<open>
  C4, amended. For a callback whose state is in the store and whose code exchange
  succeeds (an ok response with a JSON body \<open>d\<close>):
  \<^item> if it carries a non-empty \<open>realmId\<close> \<open>r\<close>, the handler stores for \<open>r\<close> the record built
    from \<open>d\<close>, whose two expiries are \<open>Date.now()\<close> plus the provider's lifetimes in
    milliseconds, and redirects to the front end with \<open>oauth_success=true&realmId=r\<close>;
  \<^item> if it carries no \<open>realmId\<close>, the handler stores nothing and still redirects with
    \<open>oauth_success=true\<close> and an empty \<open>realmId\<close>.

  A success redirect that names a non-empty realm is sent only when the exchange has
  succeeded and that realm's record has been stored.
\<close>

theorem callback_success_and_record:
  "(\<not> truthy_str err \<and> truthy_str code \<and> st \<noteq> [] \<and> map_of (oauthStateStore s) st = Some sr
      \<and> ok resp \<and> json resp = Inr d \<longrightarrow>
      (r \<noteq> [] \<longrightarrow>
         handle_callback b e code (Some st) (Some r) err (Resolved resp) now s
           = (Redirect_oauth_success (env_frontendUrl e) r,
              s\<lparr>oauthStateStore := AList.delete st (oauthStateStore s),
                tokenStore := AList.update r (callback_record e r d now) (tokenStore s)\<rparr>)
         \<and> map_of (tokenStore (snd (handle_callback b e code (Some st) (Some r) err (Resolved resp) now s))) r
           = Some (callback_record e r d now)
         \<and> (\<forall>n m. expires_in d = Some n \<and> x_refresh_token_expires_in d = Some m \<longrightarrow>
               expiresAt (callback_record e r d now) = Some (now + n * 1000)
             \<and> refreshTokenExpiresAt (callback_record e r d now) = Some (now + m * 1000)))
      \<and> (\<not> truthy_str rid \<longrightarrow>
         handle_callback b e code (Some st) rid err (Resolved resp) now s
           = (Redirect_oauth_success (env_frontendUrl e) [],
              s\<lparr>oauthStateStore := AList.delete st (oauthStateStore s)\<rparr>)))
   \<and> (handle_callback b e code' state' rid' err' reply' now s = (Redirect_oauth_success u r', s')
        \<and> r' \<noteq> [] \<longrightarrow>
        (\<exists>resp' d'. reply' = Resolved resp' \<and> ok resp' \<and> json resp' = Inr d' \<and> rid' = Some r'
           \<and> map_of (tokenStore s') r' = Some (callback_record e r' d' now)))"
proof -
  have stored: "handle_callback b e code (Some st) (Some r) err (Resolved resp) now s
           = (Redirect_oauth_success (env_frontendUrl e) r,
              s\<lparr>oauthStateStore := AList.delete st (oauthStateStore s),
                tokenStore := AList.update r (callback_record e r d now) (tokenStore s)\<rparr>)"
    if "\<not> truthy_str err" "truthy_str code" "st \<noteq> []" "map_of (oauthStateStore s) st = Some sr"
      "ok resp" "json resp = Inr d" "r \<noteq> []"
    using that by (simp add: handle_callback_def Let_def truthy_str_def js_or_default_def)
  have expiries: "expiresAt (callback_record e r d now) = Some (now + n * 1000)
             \<and> refreshTokenExpiresAt (callback_record e r d now) = Some (now + m * 1000)"
    if "expires_in d = Some n" "x_refresh_token_expires_in d = Some m" for n m
    using that by (simp add: callback_record_def js_add_def js_mul_def)
  have unstored: "handle_callback b e code (Some st) rid err (Resolved resp) now s
           = (Redirect_oauth_success (env_frontendUrl e) [],
              s\<lparr>oauthStateStore := AList.delete st (oauthStateStore s)\<rparr>)"
    if "\<not> truthy_str err" "truthy_str code" "st \<noteq> []" "map_of (oauthStateStore s) st = Some sr"
      "ok resp" "json resp = Inr d" "\<not> truthy_str rid"
    using that
    by (simp add: handle_callback_def Let_def truthy_str_def js_or_default_def split: option.splits)
  have lookup: "map_of (tokenStore (snd (handle_callback b e code (Some st) (Some r) err (Resolved resp) now s))) r
           = Some (callback_record e r d now)"
    if "\<not> truthy_str err" "truthy_str code" "st \<noteq> []" "map_of (oauthStateStore s) st = Some sr"
      "ok resp" "json resp = Inr d" "r \<noteq> []"
    by (simp add: stored [OF that] update_conv')
  have only: "\<exists>resp' d'. reply' = Resolved resp' \<and> ok resp' \<and> json resp' = Inr d' \<and> rid' = Some r'
           \<and> map_of (tokenStore s') r' = Some (callback_record e r' d' now)"
    if "handle_callback b e code' state' rid' err' reply' now s = (Redirect_oauth_success u r', s')"
      and "r' \<noteq> []"
    using that by (rule handle_callback_success_only)
  show ?thesis
  proof (intro conjI impI allI)
    assume h: "\<not> truthy_str err \<and> truthy_str code \<and> st \<noteq> [] \<and> map_of (oauthStateStore s) st = Some sr
      \<and> ok resp \<and> json resp = Inr d" and r: "r \<noteq> []"
    show "handle_callback b e code (Some st) (Some r) err (Resolved resp) now s
           = (Redirect_oauth_success (env_frontendUrl e) r,
              s\<lparr>oauthStateStore := AList.delete st (oauthStateStore s),
                tokenStore := AList.update r (callback_record e r d now) (tokenStore s)\<rparr>)"
      using h r by (intro stored) simp_all
    show "map_of (tokenStore (snd (handle_callback b e code (Some st) (Some r) err (Resolved resp) now s))) r
           = Some (callback_record e r d now)"
      using h r by (intro lookup) simp_all
  next
    fix n m
    assume "expires_in d = Some n \<and> x_refresh_token_expires_in d = Some m"
    then show "expiresAt (callback_record e r d now) = Some (now + n * 1000)"
      and "refreshTokenExpiresAt (callback_record e r d now) = Some (now + m * 1000)"
      using expiries by simp_all
  next
    assume h: "\<not> truthy_str err \<and> truthy_str code \<and> st \<noteq> [] \<and> map_of (oauthStateStore s) st = Some sr
      \<and> ok resp \<and> json resp = Inr d" and r: "\<not> truthy_str rid"
    show "handle_callback b e code (Some st) rid err (Resolved resp) now s
           = (Redirect_oauth_success (env_frontendUrl e) [],
              s\<lparr>oauthStateStore := AList.delete st (oauthStateStore s)\<rparr>)"
      using h r by (intro unstored) simp_all
  next
    assume "handle_callback b e code' state' rid' err' reply' now s = (Redirect_oauth_success u r', s')
        \<and> r' \<noteq> []"
    then show "\<exists>resp' d'. reply' = Resolved resp' \<and> ok resp' \<and> json resp' = Inr d' \<and> rid' = Some r'
           \<and> map_of (tokenStore s') r' = Some (callback_record e r' d' now)"
      using only by simp
  qed
qed

theorem callback_success_and_record_witness:
  "\<not> truthy_str None \<and> truthy_str (Some ''code'') \<and> ''s1'' \<noteq> []
   \<and> map_of (oauthStateStore sample_aged_state) ''s1'' = Some sample_state_record
   \<and> ok sample_ok_response \<and> json sample_ok_response = Inr sample_json \<and> ''co-1'' \<noteq> []
   \<and> expires_in sample_json = Some 3600 \<and> x_refresh_token_expires_in sample_json = Some 8640000
   \<and> handle_callback [] sample_env (Some ''code'') (Some ''s1'') (Some ''co-1'') None
        (Resolved sample_ok_response) 1000 sample_aged_state
      = (Redirect_oauth_success (env_frontendUrl sample_env) ''co-1'',
         sample_aged_state\<lparr>oauthStateStore := AList.delete ''s1'' (oauthStateStore sample_aged_state),
           tokenStore := AList.update ''co-1'' (callback_record sample_env ''co-1'' sample_json 1000)
             (tokenStore sample_aged_state)\<rparr>)
   \<and> expiresAt (callback_record sample_env ''co-1'' sample_json 1000) = Some (1000 + 3600 * 1000)
   \<and> refreshTokenExpiresAt (callback_record sample_env ''co-1'' sample_json 1000)
      = Some (1000 + 8640000 * 1000)
   \<and> handle_callback [] sample_env (Some ''code'') (Some ''s1'') None None
        (Resolved sample_ok_response) 1000 sample_aged_state
      = (Redirect_oauth_success (env_frontendUrl sample_env) [],
         sample_aged_state\<lparr>oauthStateStore := AList.delete ''s1'' (oauthStateStore sample_aged_state)\<rparr>)"
proof -
  have h1: "\<not> truthy_str None" and h2: "truthy_str (Some ''code'')"
    by (simp_all add: truthy_str_def)
  have h3: "''s1'' \<noteq> []" and h7: "''co-1'' \<noteq> []" by simp_all
  have h4: "map_of (oauthStateStore sample_aged_state) ''s1'' = Some sample_state_record"
    by (simp add: sample_aged_state_def)
  have h5: "ok sample_ok_response" and h6: "json sample_ok_response = Inr sample_json"
    by (simp_all add: sample_ok_response_def)
  have h8: "expires_in sample_json = Some 3600"
    and h9: "x_refresh_token_expires_in sample_json = Some 8640000"
    by (simp_all add: sample_json_def)
  from callback_success_and_record [where err = None and code = "Some ''code''" and st = "''s1''"
      and s = sample_aged_state and sr = sample_state_record and resp = sample_ok_response
      and d = sample_json and r = "''co-1''" and b = "[]" and e = sample_env and now = 1000
      and rid = None]
    h1 h2 h3 h4 h5 h6 h7 h8 h9
  show ?thesis by blast
qed

subsection \<open>Several calls of getAccessToken while the token is stale\<close>

text \<open>
  C1 as the specification states it fails: two calls start while the record is stale; the
  first refreshes and returns the new token, the second finds \<open>isRefreshing\<close> set and
  returns at once with the stale token \<open>at-old\<close>.
\<close>

theorem concurrent_caller_gets_stale_token_counterexample:
  "needsRefresh 3500000 sample_token \<and> \<not> isRefreshing sample_token
   \<and> fst (concurrent_getAccessToken sample_env (Some ''co-1'') [3500000, 3500000] sample_ok 3500100
            sample_state)
       = [Inr \<lparr> ar_accessToken = Some ''at-new'', ar_realmId = ''co-1'' \<rparr>,
          Inr \<lparr> ar_accessToken = Some ''at-old'', ar_realmId = ''co-1'' \<rparr>]"
  by (simp add: concurrent_getAccessToken_def getAccessToken_begin_def getAccessToken_resume_def
      sample_state_def sample_token_def sample_ok_def sample_ok_response_def sample_json_def
      needsRefresh_def js_ge_def js_sub_def refreshed_record_def access_of_def Let_def)

lemma start_calls_while_refreshing:
  assumes "r \<noteq> []" and "map_of (tokenStore s) r = Some td" and "isRefreshing td"
  shows "start_calls (Some r) ts s = (replicate (length ts) (Finished (Inr (access_of td))), s)"
  using assms by (induction ts) (simp_all add: getAccessToken_begin_def)

lemma finish_calls_finished:
  "finish_calls e (replicate n (Finished res)) reply t1 s = (replicate n res, s)"
  by (induction n) simp_all

lemma network_calls_finished: "network_calls (replicate n (Finished res)) = 0"
  by (induction n) (simp_all add: network_calls_def)

lemma refreshed_record_flag:
  "refreshed_record e r (td\<lparr>isRefreshing := b\<rparr>) new t1 = refreshed_record e r td new t1"
  by (simp add: refreshed_record_def)

lemma access_of_refreshed:
  "access_of (refreshed_record e r td new t1) = \<lparr> ar_accessToken = access_token new, ar_realmId = r \<rparr>"
  by (simp add: access_of_def refreshed_record_def)

lemma start_token_calls_while_refreshing:
  assumes "r \<noteq> []" and "map_of (tokenStore s) r = Some td" and "isRefreshing td"
  shows "start_token_calls (Some r) ts s
           = (map (\<lambda>t'. Finished (TokenOk (token_info_of td t'))) ts, s)"
  using assms by (induction ts) (simp_all add: token_route_begin_def)

lemma finish_token_calls_finished:
  "finish_token_calls e (map (\<lambda>t'. Finished (f t')) ts) reply t1 s = (map f ts, s)"
  by (induction ts) simp_all

lemma network_calls_map_finished: "network_calls (map (\<lambda>t'. Finished (f t')) ts) = 0"
  by (induction ts) (simp_all add: network_calls_def)

lemma getAccessToken_started:
  assumes "r \<noteq> []" and "map_of (tokenStore s) r = Some td"
    and "needsRefresh t td" and "\<not> isRefreshing td"
  shows "start_calls (Some r) (t # ts) s
           = (AwaitFetch \<lparr> p_realmId = r, p_tokenData = td\<lparr>isRefreshing := True\<rparr> \<rparr>
                # replicate (length ts) (Finished (Inr (access_of td))),
              s\<lparr>tokenStore := AList.update r (td\<lparr>isRefreshing := True\<rparr>) (tokenStore s)\<rparr>)"
proof -
  let ?td = "td\<lparr>isRefreshing := True\<rparr>"
  let ?s1 = "s\<lparr>tokenStore := AList.update r ?td (tokenStore s)\<rparr>"
  have first: "getAccessToken_begin (Some r) t s
                 = (AwaitFetch \<lparr> p_realmId = r, p_tokenData = ?td \<rparr>, ?s1)"
    using assms by (simp add: getAccessToken_begin_def Let_def)
  have "map_of (tokenStore ?s1) r = Some ?td" by (simp add: update_conv')
  then have "start_calls (Some r) ts ?s1
               = (replicate (length ts) (Finished (Inr (access_of td))), ?s1)"
    using start_calls_while_refreshing [of r ?s1 ?td ts] assms(1) by (simp add: access_of_def)
  then show ?thesis by (simp add: first)
qed

lemma token_route_started:
  assumes "r \<noteq> []" and "map_of (tokenStore s) r = Some td"
    and "needsRefresh t td" and "\<not> isRefreshing td"
  shows "start_token_calls (Some r) (t # ts) s
           = (AwaitFetch \<lparr> p_realmId = r, p_tokenData = td\<lparr>isRefreshing := True\<rparr> \<rparr>
                # map (\<lambda>t'. Finished (TokenOk (token_info_of td t'))) ts,
              s\<lparr>tokenStore := AList.update r (td\<lparr>isRefreshing := True\<rparr>) (tokenStore s)\<rparr>)"
proof -
  let ?td = "td\<lparr>isRefreshing := True\<rparr>"
  let ?s1 = "s\<lparr>tokenStore := AList.update r ?td (tokenStore s)\<rparr>"
  have first: "token_route_begin (Some r) t s
                 = (AwaitFetch \<lparr> p_realmId = r, p_tokenData = ?td \<rparr>, ?s1)"
    using assms by (simp add: token_route_begin_def Let_def)
  have "map_of (tokenStore ?s1) r = Some ?td" by (simp add: update_conv')
  then have "start_token_calls (Some r) ts ?s1
               = (map (\<lambda>t'. Finished (TokenOk (token_info_of td t'))) ts, ?s1)"
    using start_token_calls_while_refreshing [of r ?s1 ?td ts] assms(1)
    by (simp add: token_info_of_def)
  then show ?thesis by (simp add: first)
qed

text \<open>What the suspended first call does with each kind of reply, in the state the calls
  have left.\<close>

lemma getAccessToken_resume_values:
  fixes s :: server_state and td :: token_data and r :: string
  defines "p \<equiv> \<lparr> p_realmId = r, p_tokenData = td\<lparr>isRefreshing := True\<rparr> \<rparr>"
    and "s1 \<equiv> s\<lparr>tokenStore := AList.update r (td\<lparr>isRefreshing := True\<rparr>) (tokenStore s)\<rparr>"
    and "kept \<equiv> s\<lparr>tokenStore := AList.update r (td\<lparr>isRefreshing := False\<rparr>) (tokenStore s)\<rparr>"
  shows "ok resp \<Longrightarrow> json resp = Inr new \<Longrightarrow>
           getAccessToken_resume e p (Resolved resp) t1 s1
             = (Inr \<lparr> ar_accessToken = access_token new, ar_realmId = r \<rparr>,
                s\<lparr>tokenStore := AList.update r (refreshed_record e r td new t1) (tokenStore s)\<rparr>)"
    and "ok resp \<Longrightarrow> json resp = Inl msg \<Longrightarrow>
           getAccessToken_resume e p (Resolved resp) t1 s1 = (Inl msg, kept)"
    and "\<not> ok resp \<Longrightarrow>
           getAccessToken_resume e p (Resolved resp) t1 s1
             = (Inl (''Failed to refresh token: '' @ error_detail resp), kept)"
    and "getAccessToken_resume e p (Rejected msg) t1 s1 = (Inl msg, kept)"
  by (simp_all add: p_def s1_def kept_def getAccessToken_resume_def Let_def refreshed_record_flag
      access_of_refreshed)

lemma token_route_resume_values:
  fixes s :: server_state and td :: token_data and r :: string
  defines "p \<equiv> \<lparr> p_realmId = r, p_tokenData = td\<lparr>isRefreshing := True\<rparr> \<rparr>"
    and "s1 \<equiv> s\<lparr>tokenStore := AList.update r (td\<lparr>isRefreshing := True\<rparr>) (tokenStore s)\<rparr>"
    and "kept \<equiv> s\<lparr>tokenStore := AList.update r (td\<lparr>isRefreshing := False\<rparr>) (tokenStore s)\<rparr>"
  shows "ok resp \<Longrightarrow> json resp = Inr new \<Longrightarrow>
           token_route_resume e p (Resolved resp) t1 s1
             = (TokenOk (token_info_of (refreshed_record e r td new t1) t1),
                s\<lparr>tokenStore := AList.update r (refreshed_record e r td new t1) (tokenStore s)\<rparr>)"
    and "ok resp \<Longrightarrow> json resp = Inl msg \<Longrightarrow>
           token_route_resume e p (Resolved resp) t1 s1
             = (TokenFailed (''Failed to get token: '' @ msg), kept)"
    and "\<not> ok resp \<Longrightarrow>
           token_route_resume e p (Resolved resp) t1 s1 = (TokenRefreshFailed, kept)"
    and "token_route_resume e p (Rejected msg) t1 s1
           = (TokenFailed (''Failed to get token: '' @ msg), kept)"
  by (simp_all add: p_def s1_def kept_def token_route_resume_def Let_def refreshed_record_flag
      update_conv')

lemma concurrent_getAccessToken_unfold:
  assumes "r \<noteq> []" and "map_of (tokenStore s) r = Some td"
    and "needsRefresh t td" and "\<not> isRefreshing td"
    and "getAccessToken_resume e \<lparr> p_realmId = r, p_tokenData = td\<lparr>isRefreshing := True\<rparr> \<rparr> reply t1
           (s\<lparr>tokenStore := AList.update r (td\<lparr>isRefreshing := True\<rparr>) (tokenStore s)\<rparr>)
         = (res, s')"
  shows "concurrent_getAccessToken e (Some r) (t # ts) reply t1 s
           = (res # replicate (length ts) (Inr (access_of td)), s')"
  unfolding concurrent_getAccessToken_def getAccessToken_started [OF assms(1-4)]
  by (simp add: assms(5) finish_calls_finished)

lemma concurrent_token_route_unfold:
  assumes "r \<noteq> []" and "map_of (tokenStore s) r = Some td"
    and "needsRefresh t td" and "\<not> isRefreshing td"
    and "token_route_resume e \<lparr> p_realmId = r, p_tokenData = td\<lparr>isRefreshing := True\<rparr> \<rparr> reply t1
           (s\<lparr>tokenStore := AList.update r (td\<lparr>isRefreshing := True\<rparr>) (tokenStore s)\<rparr>)
         = (res, s')"
  shows "concurrent_token_route e (Some r) (t # ts) reply t1 s
           = (res # map (\<lambda>t'. TokenOk (token_info_of td t')) ts, s')"
  unfolding concurrent_token_route_def token_route_started [OF assms(1-4)]
  by (simp add: assms(5) finish_token_calls_finished)

text \<open>
  C1, amended. Let the record \<open>td\<close> of tenant \<open>r\<close> be stale and not marked as
  refreshing, and let any number of calls of \<open>getAccessToken(r)\<close> start before the
  provider answers. Then exactly one network call is made, by the first call, and:
  \<^item> if the provider answers ok with a JSON body, the first call resolves to the access
    token of that body and the refreshed record is stored;
  \<^item> if the provider answers with a non-ok status, or the body cannot be read, or
    \<open>fetch\<close> rejects, the first call fails with that error and the old record is stored
    with \<open>isRefreshing\<close> reset;
  \<^item> in each case every other call makes no network call and resolves to the token of
    \<open>td\<close>, the stale one; it neither gets the refreshed token nor fails with the first;
  \<^item> the first call's result and the final store are those of a lone call.

  The same holds for requests to \<open>GET /token\<close>: one network call, the first request is
  answered with the refreshed token or with the 401 or 500 failure, every other request
  with the stale token of \<open>td\<close> and its remaining lifetime.
\<close>

theorem concurrent_calls_one_refresh:
  assumes "r \<noteq> []" and "map_of (tokenStore s) r = Some td"
    and "needsRefresh t td" and "\<not> isRefreshing td"
  shows "fst (start_calls (Some r) (t # ts) s)
           = AwaitFetch \<lparr> p_realmId = r, p_tokenData = td\<lparr>isRefreshing := True\<rparr> \<rparr>
               # replicate (length ts) (Finished (Inr (access_of td)))
       \<and> network_calls (fst (start_calls (Some r) (t # ts) s)) = 1
       \<and> (ok resp \<and> json resp = Inr new \<longrightarrow>
            concurrent_getAccessToken e (Some r) (t # ts) (Resolved resp) t1 s
              = (Inr \<lparr> ar_accessToken = access_token new, ar_realmId = r \<rparr>
                   # replicate (length ts) (Inr (access_of td)),
                 s\<lparr>tokenStore := AList.update r (refreshed_record e r td new t1) (tokenStore s)\<rparr>))
       \<and> (ok resp \<and> json resp = Inl msg \<longrightarrow>
            concurrent_getAccessToken e (Some r) (t # ts) (Resolved resp) t1 s
              = (Inl msg # replicate (length ts) (Inr (access_of td)),
                 s\<lparr>tokenStore := AList.update r (td\<lparr>isRefreshing := False\<rparr>) (tokenStore s)\<rparr>))
       \<and> (\<not> ok resp \<longrightarrow>
            concurrent_getAccessToken e (Some r) (t # ts) (Resolved resp) t1 s
              = (Inl (''Failed to refresh token: '' @ error_detail resp)
                   # replicate (length ts) (Inr (access_of td)),
                 s\<lparr>tokenStore := AList.update r (td\<lparr>isRefreshing := False\<rparr>) (tokenStore s)\<rparr>))
       \<and> concurrent_getAccessToken e (Some r) (t # ts) (Rejected msg) t1 s
              = (Inl msg # replicate (length ts) (Inr (access_of td)),
                 s\<lparr>tokenStore := AList.update r (td\<lparr>isRefreshing := False\<rparr>) (tokenStore s)\<rparr>)
       \<and> fst (concurrent_getAccessToken e (Some r) (t # ts) reply t1 s)
           = fst (getAccessToken e (Some r) t reply t1 s)
               # replicate (length ts) (Inr (access_of td))
       \<and> snd (concurrent_getAccessToken e (Some r) (t # ts) reply t1 s)
           = snd (getAccessToken e (Some r) t reply t1 s)
       \<and> fst (start_token_calls (Some r) (t # ts) s)
           = AwaitFetch \<lparr> p_realmId = r, p_tokenData = td\<lparr>isRefreshing := True\<rparr> \<rparr>
               # map (\<lambda>t'. Finished (TokenOk (token_info_of td t'))) ts
       \<and> network_calls (fst (start_token_calls (Some r) (t # ts) s)) = 1
       \<and> (ok resp \<and> json resp = Inr new \<longrightarrow>
            concurrent_token_route e (Some r) (t # ts) (Resolved resp) t1 s
              = (TokenOk (token_info_of (refreshed_record e r td new t1) t1)
                   # map (\<lambda>t'. TokenOk (token_info_of td t')) ts,
                 s\<lparr>tokenStore := AList.update r (refreshed_record e r td new t1) (tokenStore s)\<rparr>))
       \<and> (ok resp \<and> json resp = Inl msg \<longrightarrow>
            concurrent_token_route e (Some r) (t # ts) (Resolved resp) t1 s
              = (TokenFailed (''Failed to get token: '' @ msg)
                   # map (\<lambda>t'. TokenOk (token_info_of td t')) ts,
                 s\<lparr>tokenStore := AList.update r (td\<lparr>isRefreshing := False\<rparr>) (tokenStore s)\<rparr>))
       \<and> (\<not> ok resp \<longrightarrow>
            concurrent_token_route e (Some r) (t # ts) (Resolved resp) t1 s
              = (TokenRefreshFailed # map (\<lambda>t'. TokenOk (token_info_of td t')) ts,
                 s\<lparr>tokenStore := AList.update r (td\<lparr>isRefreshing := False\<rparr>) (tokenStore s)\<rparr>))
       \<and> concurrent_token_route e (Some r) (t # ts) (Rejected msg) t1 s
              = (TokenFailed (''Failed to get token: '' @ msg)
                   # map (\<lambda>t'. TokenOk (token_info_of td t')) ts,
                 s\<lparr>tokenStore := AList.update r (td\<lparr>isRefreshing := False\<rparr>) (tokenStore s)\<rparr>)"
proof -
  let ?p = "\<lparr> p_realmId = r, p_tokenData = td\<lparr>isRefreshing := True\<rparr> \<rparr>"
  let ?s1 = "s\<lparr>tokenStore := AList.update r (td\<lparr>isRefreshing := True\<rparr>) (tokenStore s)\<rparr>"
  note gstart = getAccessToken_started [OF assms, of ts]
  note tstart = token_route_started [OF assms, of ts]
  have g0: "fst (start_calls (Some r) (t # ts) s)
           = AwaitFetch ?p # replicate (length ts) (Finished (Inr (access_of td)))"
    by (simp only: gstart fst_conv)
  have g1: "network_calls (fst (start_calls (Some r) (t # ts) s)) = 1"
    unfolding g0
    using network_calls_finished [of "length ts" "Inr (access_of td) :: string + access_result"]
    by (simp add: network_calls_def)
  have g2: "ok resp \<and> json resp = Inr new \<longrightarrow>
            concurrent_getAccessToken e (Some r) (t # ts) (Resolved resp) t1 s
              = (Inr \<lparr> ar_accessToken = access_token new, ar_realmId = r \<rparr>
                   # replicate (length ts) (Inr (access_of td)),
                 s\<lparr>tokenStore := AList.update r (refreshed_record e r td new t1) (tokenStore s)\<rparr>)"
    using concurrent_getAccessToken_unfold [OF assms getAccessToken_resume_values(1)] by blast
  have g3: "ok resp \<and> json resp = Inl msg \<longrightarrow>
            concurrent_getAccessToken e (Some r) (t # ts) (Resolved resp) t1 s
              = (Inl msg # replicate (length ts) (Inr (access_of td)),
                 s\<lparr>tokenStore := AList.update r (td\<lparr>isRefreshing := False\<rparr>) (tokenStore s)\<rparr>)"
    using concurrent_getAccessToken_unfold [OF assms getAccessToken_resume_values(2)] by blast
  have g4: "\<not> ok resp \<longrightarrow>
            concurrent_getAccessToken e (Some r) (t # ts) (Resolved resp) t1 s
              = (Inl (''Failed to refresh token: '' @ error_detail resp)
                   # replicate (length ts) (Inr (access_of td)),
                 s\<lparr>tokenStore := AList.update r (td\<lparr>isRefreshing := False\<rparr>) (tokenStore s)\<rparr>)"
    using concurrent_getAccessToken_unfold [OF assms getAccessToken_resume_values(3)] by blast
  have g5: "concurrent_getAccessToken e (Some r) (t # ts) (Rejected msg) t1 s
              = (Inl msg # replicate (length ts) (Inr (access_of td)),
                 s\<lparr>tokenStore := AList.update r (td\<lparr>isRefreshing := False\<rparr>) (tokenStore s)\<rparr>)"
    by (rule concurrent_getAccessToken_unfold [OF assms getAccessToken_resume_values(4)])
  have lone: "getAccessToken e (Some r) t reply t1 s = getAccessToken_resume e ?p reply t1 ?s1"
    using assms by (simp add: getAccessToken_def getAccessToken_begin_def Let_def)
  have g6: "concurrent_getAccessToken e (Some r) (t # ts) reply t1 s
              = (fst (getAccessToken e (Some r) t reply t1 s)
                   # replicate (length ts) (Inr (access_of td)),
                 snd (getAccessToken e (Some r) t reply t1 s))"
    unfolding lone by (rule concurrent_getAccessToken_unfold [OF assms]) simp
  have k0: "fst (start_token_calls (Some r) (t # ts) s)
           = AwaitFetch ?p # map (\<lambda>t'. Finished (TokenOk (token_info_of td t'))) ts"
    by (simp only: tstart fst_conv)
  have k1: "network_calls (fst (start_token_calls (Some r) (t # ts) s)) = 1"
    unfolding k0
    using network_calls_map_finished [of "\<lambda>t'. TokenOk (token_info_of td t')" ts]
    by (simp add: network_calls_def)
  have k2: "ok resp \<and> json resp = Inr new \<longrightarrow>
            concurrent_token_route e (Some r) (t # ts) (Resolved resp) t1 s
              = (TokenOk (token_info_of (refreshed_record e r td new t1) t1)
                   # map (\<lambda>t'. TokenOk (token_info_of td t')) ts,
                 s\<lparr>tokenStore := AList.update r (refreshed_record e r td new t1) (tokenStore s)\<rparr>)"
    using concurrent_token_route_unfold [OF assms token_route_resume_values(1)] by blast
  have k3: "ok resp \<and> json resp = Inl msg \<longrightarrow>
            concurrent_token_route e (Some r) (t # ts) (Resolved resp) t1 s
              = (TokenFailed (''Failed to get token: '' @ msg)
                   # map (\<lambda>t'. TokenOk (token_info_of td t')) ts,
                 s\<lparr>tokenStore := AList.update r (td\<lparr>isRefreshing := False\<rparr>) (tokenStore s)\<rparr>)"
    using concurrent_token_route_unfold [OF assms token_route_resume_values(2)] by blast
  have k4: "\<not> ok resp \<longrightarrow>
            concurrent_token_route e (Some r) (t # ts) (Resolved resp) t1 s
              = (TokenRefreshFailed # map (\<lambda>t'. TokenOk (token_info_of td t')) ts,
                 s\<lparr>tokenStore := AList.update r (td\<lparr>isRefreshing := False\<rparr>) (tokenStore s)\<rparr>)"
    using concurrent_token_route_unfold [OF assms token_route_resume_values(3)] by blast
  have k5: "concurrent_token_route e (Some r) (t # ts) (Rejected msg) t1 s
              = (TokenFailed (''Failed to get token: '' @ msg)
                   # map (\<lambda>t'. TokenOk (token_info_of td t')) ts,
                 s\<lparr>tokenStore := AList.update r (td\<lparr>isRefreshing := False\<rparr>) (tokenStore s)\<rparr>)"
    by (rule concurrent_token_route_unfold [OF assms token_route_resume_values(4)])
  have g7: "fst (concurrent_getAccessToken e (Some r) (t # ts) reply t1 s)
           = fst (getAccessToken e (Some r) t reply t1 s)
               # replicate (length ts) (Inr (access_of td))"
    and g8: "snd (concurrent_getAccessToken e (Some r) (t # ts) reply t1 s)
           = snd (getAccessToken e (Some r) t reply t1 s)"
    by (simp_all only: g6 fst_conv snd_conv)
  show ?thesis
    by (intro conjI) (fact g0 g1 g2 g3 g4 g5 g7 g8 k0 k1 k2 k3 k4 k5)+
qed

theorem concurrent_calls_one_refresh_witness:
  "''co-1'' \<noteq> [] \<and> map_of (tokenStore sample_state) ''co-1'' = Some sample_token
   \<and> needsRefresh 3500000 sample_token \<and> \<not> isRefreshing sample_token
   \<and> ok sample_ok_response \<and> json sample_ok_response = Inr sample_json
   \<and> \<not> ok sample_not_ok_response
   \<and> network_calls (fst (start_calls (Some ''co-1'') [3500000, 3500010, 3500020] sample_state)) = 1
   \<and> fst (concurrent_getAccessToken sample_env (Some ''co-1'') [3500000, 3500010, 3500020]
            (Resolved sample_ok_response) 3500100 sample_state)
       = [Inr \<lparr> ar_accessToken = Some ''at-new'', ar_realmId = ''co-1'' \<rparr>,
          Inr \<lparr> ar_accessToken = Some ''at-old'', ar_realmId = ''co-1'' \<rparr>,
          Inr \<lparr> ar_accessToken = Some ''at-old'', ar_realmId = ''co-1'' \<rparr>]
   \<and> fst (concurrent_getAccessToken sample_env (Some ''co-1'') [3500000, 3500010, 3500020]
            (Resolved sample_not_ok_response) 3500100 sample_state)
       = [Inl ''Failed to refresh token: invalid_grant'',
          Inr \<lparr> ar_accessToken = Some ''at-old'', ar_realmId = ''co-1'' \<rparr>,
          Inr \<lparr> ar_accessToken = Some ''at-old'', ar_realmId = ''co-1'' \<rparr>]
   \<and> network_calls (fst (start_token_calls (Some ''co-1'') [3500000, 3500010, 3500020] sample_state)) = 1
   \<and> fst (concurrent_token_route sample_env (Some ''co-1'') [3500000, 3500010, 3500020]
            (Resolved sample_ok_response) 3500100 sample_state)
       = [TokenOk \<lparr> ti_accessToken = Some ''at-new'', ti_realmId = ''co-1'',
                    ti_expiresAt = Some 7100100, ti_expiresIn = Some 3600 \<rparr>,
          TokenOk \<lparr> ti_accessToken = Some ''at-old'', ti_realmId = ''co-1'',
                    ti_expiresAt = Some 3600000, ti_expiresIn = Some 99 \<rparr>,
          TokenOk \<lparr> ti_accessToken = Some ''at-old'', ti_realmId = ''co-1'',
                    ti_expiresAt = Some 3600000, ti_expiresIn = Some 99 \<rparr>]
   \<and> fst (concurrent_token_route sample_env (Some ''co-1'') [3500000, 3500010, 3500020]
            (Resolved sample_not_ok_response) 3500100 sample_state)
       = [TokenRefreshFailed,
          TokenOk \<lparr> ti_accessToken = Some ''at-old'', ti_realmId = ''co-1'',
                    ti_expiresAt = Some 3600000, ti_expiresIn = Some 99 \<rparr>,
          TokenOk \<lparr> ti_accessToken = Some ''at-old'', ti_realmId = ''co-1'',
                    ti_expiresAt = Some 3600000, ti_expiresIn = Some 99 \<rparr>]"
proof -
  have h1: "''co-1'' \<noteq> []" by simp
  have h2: "map_of (tokenStore sample_state) ''co-1'' = Some sample_token"
    by (simp add: sample_state_def)
  have h3: "needsRefresh 3500000 sample_token"
    by (simp add: needsRefresh_def sample_token_def js_ge_def js_sub_def)
  have h4: "\<not> isRefreshing sample_token" by (simp add: sample_token_def)
  have h5: "ok sample_ok_response" and h6: "json sample_ok_response = Inr sample_json"
    by (simp_all add: sample_ok_response_def)
  have h7: "\<not> ok sample_not_ok_response" by (simp add: sample_not_ok_response_def)
  note accepted = concurrent_calls_one_refresh [where ts = "[3500010, 3500020]" and e = sample_env
      and resp = sample_ok_response and new = sample_json and ?t1.0 = 3500100, OF h1 h2 h3 h4]
  note refused = concurrent_calls_one_refresh [where ts = "[3500010, 3500020]" and e = sample_env
      and resp = sample_not_ok_response and ?t1.0 = 3500100, OF h1 h2 h3 h4]
  have n1: "network_calls (fst (start_calls (Some ''co-1'') [3500000, 3500010, 3500020] sample_state)) = 1"
    and n2: "network_calls (fst (start_token_calls (Some ''co-1'') [3500000, 3500010, 3500020] sample_state)) = 1"
    using accepted by blast+
  have "concurrent_getAccessToken sample_env (Some ''co-1'') [3500000, 3500010, 3500020]
            (Resolved sample_ok_response) 3500100 sample_state
       = (Inr \<lparr> ar_accessToken = access_token sample_json, ar_realmId = ''co-1'' \<rparr>
            # replicate (length [3500010, 3500020 :: int]) (Inr (access_of sample_token)),
          sample_state\<lparr>tokenStore := AList.update ''co-1''
             (refreshed_record sample_env ''co-1'' sample_token sample_json 3500100)
             (tokenStore sample_state)\<rparr>)"
    using accepted h5 h6 by blast
  then have a1: "fst (concurrent_getAccessToken sample_env (Some ''co-1'') [3500000, 3500010, 3500020]
            (Resolved sample_ok_response) 3500100 sample_state)
       = [Inr \<lparr> ar_accessToken = Some ''at-new'', ar_realmId = ''co-1'' \<rparr>,
          Inr \<lparr> ar_accessToken = Some ''at-old'', ar_realmId = ''co-1'' \<rparr>,
          Inr \<lparr> ar_accessToken = Some ''at-old'', ar_realmId = ''co-1'' \<rparr>]"
    by (simp add: sample_json_def sample_token_def access_of_def)
  have "concurrent_getAccessToken sample_env (Some ''co-1'') [3500000, 3500010, 3500020]
            (Resolved sample_not_ok_response) 3500100 sample_state
       = (Inl (''Failed to refresh token: '' @ error_detail sample_not_ok_response)
            # replicate (length [3500010, 3500020 :: int]) (Inr (access_of sample_token)),
          sample_state\<lparr>tokenStore := AList.update ''co-1'' (sample_token\<lparr>isRefreshing := False\<rparr>)
             (tokenStore sample_state)\<rparr>)"
    using refused h7 by blast
  then have a2: "fst (concurrent_getAccessToken sample_env (Some ''co-1'') [3500000, 3500010, 3500020]
            (Resolved sample_not_ok_response) 3500100 sample_state)
       = [Inl ''Failed to refresh token: invalid_grant'',
          Inr \<lparr> ar_accessToken = Some ''at-old'', ar_realmId = ''co-1'' \<rparr>,
          Inr \<lparr> ar_accessToken = Some ''at-old'', ar_realmId = ''co-1'' \<rparr>]"
    by (simp add: sample_not_ok_response_def sample_token_def access_of_def error_detail_def
        js_or_default_def)
  have "concurrent_token_route sample_env (Some ''co-1'') [3500000, 3500010, 3500020]
            (Resolved sample_ok_response) 3500100 sample_state
       = (TokenOk (token_info_of (refreshed_record sample_env ''co-1'' sample_token sample_json 3500100)
                     3500100)
            # map (\<lambda>t'. TokenOk (token_info_of sample_token t')) [3500010, 3500020],
          sample_state\<lparr>tokenStore := AList.update ''co-1''
             (refreshed_record sample_env ''co-1'' sample_token sample_json 3500100)
             (tokenStore sample_state)\<rparr>)"
    using accepted h5 h6 by blast
  then have a3: "fst (concurrent_token_route sample_env (Some ''co-1'') [3500000, 3500010, 3500020]
            (Resolved sample_ok_response) 3500100 sample_state)
       = [TokenOk \<lparr> ti_accessToken = Some ''at-new'', ti_realmId = ''co-1'',
                    ti_expiresAt = Some 7100100, ti_expiresIn = Some 3600 \<rparr>,
          TokenOk \<lparr> ti_accessToken = Some ''at-old'', ti_realmId = ''co-1'',
                    ti_expiresAt = Some 3600000, ti_expiresIn = Some 99 \<rparr>,
          TokenOk \<lparr> ti_accessToken = Some ''at-old'', ti_realmId = ''co-1'',
                    ti_expiresAt = Some 3600000, ti_expiresIn = Some 99 \<rparr>]"
    by (simp add: sample_json_def sample_token_def token_info_of_def refreshed_record_def
        js_add_def js_mul_def js_sub_def seconds_left_def)
  have "concurrent_token_route sample_env (Some ''co-1'') [3500000, 3500010, 3500020]
            (Resolved sample_not_ok_response) 3500100 sample_state
       = (TokenRefreshFailed
            # map (\<lambda>t'. TokenOk (token_info_of sample_token t')) [3500010, 3500020],
          sample_state\<lparr>tokenStore := AList.update ''co-1'' (sample_token\<lparr>isRefreshing := False\<rparr>)
             (tokenStore sample_state)\<rparr>)"
    using refused h7 by blast
  then have a4: "fst (concurrent_token_route sample_env (Some ''co-1'') [3500000, 3500010, 3500020]
            (Resolved sample_not_ok_response) 3500100 sample_state)
       = [TokenRefreshFailed,
          TokenOk \<lparr> ti_accessToken = Some ''at-old'', ti_realmId = ''co-1'',
                    ti_expiresAt = Some 3600000, ti_expiresIn = Some 99 \<rparr>,
          TokenOk \<lparr> ti_accessToken = Some ''at-old'', ti_realmId = ''co-1'',
                    ti_expiresAt = Some 3600000, ti_expiresIn = Some 99 \<rparr>]"
    by (simp add: sample_token_def token_info_of_def js_sub_def seconds_left_def)
  show ?thesis
    by (intro conjI) (fact h1 h2 h3 h4 h5 h6 h7 n1 n2 a1 a2 a3 a4)+
qed

subsection \<open>The deployment name of a record\<close>

lemma env_consistent_update:
  assumes "env_consistent e store" and "environment td = env_environment e"
  shows "env_consistent e (AList.update k td store)"
  using assms by (induction store) (auto simp: env_consistent_def)

lemma env_consistent_delete:
  assumes "env_consistent e store"
  shows "env_consistent e (AList.delete k store)"
  using assms by (induction store) (auto simp: env_consistent_def)

lemma env_consistent_lookup:
  assumes "env_consistent e store" and "map_of store k = Some td"
  shows "environment td = env_environment e"
proof -
  have "(k, td) \<in> set store" using assms(2) by (rule map_of_SomeD)
  then show ?thesis using assms(1) by (auto simp: env_consistent_def list_all_iff)
qed

lemma pending_consistent_remove1:
  assumes "pending_consistent e ps"
  shows "pending_consistent e (remove1 p ps)"
  using assms set_remove1_subset [of p ps] by (auto simp: pending_consistent_def list_all_iff)

lemma pending_consistent_member:
  assumes "pending_consistent e ps" and "p \<in> set ps"
  shows "environment (p_tokenData p) = env_environment e"
  using assms by (auto simp: pending_consistent_def list_all_iff)

lemma refreshed_record_environment [simp]:
  "environment (refreshed_record e r old new now) = env_environment e"
  by (simp add: refreshed_record_def)

lemma callback_record_environment [simp]:
  "environment (callback_record e r d now) = env_environment e"
  by (simp add: callback_record_def)

lemma authorize_route_tokenStore [simp]:
  "tokenStore (snd (authorize_route e origin st now s)) = tokenStore s"
  by (simp add: authorize_route_def Let_def)

lemma revoke_route_consistent:
  "env_consistent e (tokenStore s) \<Longrightarrow> env_consistent e (tokenStore (snd (revoke_route rid reply s)))"
  by (auto simp: revoke_route_def env_consistent_delete split: option.splits)

lemma handle_callback_consistent:
  "env_consistent e (tokenStore s) \<Longrightarrow>
   env_consistent e (tokenStore (snd (handle_callback b e code state rid err reply now s)))"
  by (auto simp: handle_callback_def Let_def env_consistent_update
      split: option.splits fetch_result.splits sum.splits)

lemma refresh_route_consistent:
  "env_consistent e (tokenStore s) \<Longrightarrow>
   env_consistent e (tokenStore (snd (refresh_route e rid t0 reply t1 s)))"
  by (auto simp: refresh_route_def env_consistent_update env_consistent_delete
      split: option.splits fetch_result.splits sum.splits)

lemma getAccessToken_begin_consistent:
  assumes "env_consistent e (tokenStore s)" and "getAccessToken_begin rid t0 s = (ph, s')"
  shows "env_consistent e (tokenStore s')
       \<and> (\<forall>p. ph = AwaitFetch p \<longrightarrow> environment (p_tokenData p) = env_environment e)"
proof (cases ph)
  case (Finished res)
  then have "s' = s" using assms(2)
    by (auto simp: getAccessToken_begin_def Let_def split: option.splits if_splits)
  then show ?thesis using assms(1) Finished by simp
next
  case (AwaitFetch p)
  then obtain r td where td: "map_of (tokenStore s) r = Some td"
    and p: "p = \<lparr> p_realmId = r, p_tokenData = td\<lparr>isRefreshing := True\<rparr> \<rparr>"
    and s': "s' = s\<lparr>tokenStore := AList.update r (td\<lparr>isRefreshing := True\<rparr>) (tokenStore s)\<rparr>"
    using assms(2)
    by (auto simp: getAccessToken_begin_def Let_def split: option.splits if_splits)
  have "environment td = env_environment e"
    using assms(1) td by (rule env_consistent_lookup)
  then show ?thesis
    using assms(1) AwaitFetch p s' by (simp add: env_consistent_update)
qed

lemma token_route_begin_consistent:
  assumes "env_consistent e (tokenStore s)" and "token_route_begin rid t0 s = (ph, s')"
  shows "env_consistent e (tokenStore s')
       \<and> (\<forall>p. ph = AwaitFetch p \<longrightarrow> environment (p_tokenData p) = env_environment e)"
proof (cases ph)
  case (Finished res)
  then have "s' = s" using assms(2)
    by (auto simp: token_route_begin_def Let_def split: option.splits if_splits)
  then show ?thesis using assms(1) Finished by simp
next
  case (AwaitFetch p)
  then obtain r td where td: "map_of (tokenStore s) r = Some td"
    and p: "p = \<lparr> p_realmId = r, p_tokenData = td\<lparr>isRefreshing := True\<rparr> \<rparr>"
    and s': "s' = s\<lparr>tokenStore := AList.update r (td\<lparr>isRefreshing := True\<rparr>) (tokenStore s)\<rparr>"
    using assms(2)
    by (auto simp: token_route_begin_def Let_def split: option.splits if_splits)
  have "environment td = env_environment e"
    using assms(1) td by (rule env_consistent_lookup)
  then show ?thesis
    using assms(1) AwaitFetch p s' by (simp add: env_consistent_update)
qed

lemma getAccessToken_resume_consistent:
  assumes "env_consistent e (tokenStore s)" and "environment (p_tokenData p) = env_environment e"
  shows "env_consistent e (tokenStore (snd (getAccessToken_resume e p reply t1 s)))"
  using assms
  by (auto simp: getAccessToken_resume_def Let_def env_consistent_update
      split: fetch_result.splits sum.splits)

lemma token_route_resume_consistent:
  assumes "env_consistent e (tokenStore s)" and "environment (p_tokenData p) = env_environment e"
  shows "env_consistent e (tokenStore (snd (token_route_resume e p reply t1 s)))"
  using assms
  by (auto simp: token_route_resume_def Let_def env_consistent_update
      split: fetch_result.splits sum.splits)

text \<open>In every reachable state all records, stored or held by a suspended call, carry the
  deployment name of the configuration.\<close>

lemma reachable_consistent:
  assumes "reachable e s gs ts"
  shows "env_consistent e (tokenStore s) \<and> pending_consistent e gs \<and> pending_consistent e ts"
  using assms
proof (induction rule: reachable.induct)
  case started
  then show ?case by (simp add: env_consistent_def pending_consistent_def)
next
  case (authorized s gs ts origin st now)
  then show ?case by simp
next
  case (called_back s gs ts b code state rid err reply now)
  then show ?case by (simp add: handle_callback_consistent)
next
  case (refreshed s gs ts rid t0 reply t1)
  then show ?case by (simp add: refresh_route_consistent)
next
  case (revoked s gs ts rid reply)
  then show ?case by (simp add: revoke_route_consistent)
next
  case (get_finished s gs ts rid t0 res s')
  then show ?case using getAccessToken_begin_consistent [of e s rid t0 "Finished res" s'] by simp
next
  case (get_suspended s gs ts rid t0 p s')
  then show ?case using getAccessToken_begin_consistent [of e s rid t0 "AwaitFetch p" s']
    by (simp add: pending_consistent_def)
next
  case (get_resumed s gs ts p reply t1)
  then have "environment (p_tokenData p) = env_environment e"
    using pending_consistent_member [of e gs p] by simp
  with get_resumed show ?case
    by (simp add: getAccessToken_resume_consistent pending_consistent_remove1)
next
  case (token_finished s gs ts rid t0 tres s')
  then show ?case using token_route_begin_consistent [of e s rid t0 "Finished tres" s'] by simp
next
  case (token_suspended s gs ts rid t0 p s')
  then show ?case using token_route_begin_consistent [of e s rid t0 "AwaitFetch p" s']
    by (simp add: pending_consistent_def)
next
  case (token_resumed s gs ts p reply t1)
  then have "environment (p_tokenData p) = env_environment e"
    using pending_consistent_member [of e ts p] by simp
  with token_resumed show ?case
    by (simp add: token_route_resume_consistent pending_consistent_remove1)
qed

lemma refresh_route_environment:
  assumes "map_of (tokenStore s) r = Some old" and "environment old = env_environment e"
    and "refresh_route e (Some r) t0 reply t1 s = (RefreshOk x, s')"
  shows "map_option environment (map_of (tokenStore s') r) = Some (environment old)"
  using assms
  by (auto simp: refresh_route_def update_conv'
      split: if_splits fetch_result.splits sum.splits)

lemma getAccessToken_environment:
  assumes "map_of (tokenStore s) r = Some old" and "environment old = env_environment e"
    and "getAccessToken e (Some r) t0 reply t1 s = (Inr a, s')"
  shows "map_option environment (map_of (tokenStore s') r) = Some (environment old)"
  using assms
  by (auto simp: getAccessToken_def getAccessToken_begin_def getAccessToken_resume_def Let_def
      update_conv' split: if_splits fetch_result.splits sum.splits)

lemma token_route_environment:
  assumes "map_of (tokenStore s) r = Some old" and "environment old = env_environment e"
    and "token_route e (Some r) t0 reply t1 s = (TokenOk i, s')"
  shows "map_option environment (map_of (tokenStore s') r) = Some (environment old)"
  using assms
  by (auto simp: token_route_def token_route_begin_def token_route_resume_def Let_def
      update_conv' split: if_splits fetch_result.splits sum.splits)

text \<open>
  C9. In every state the server can reach under its configuration, for every tenant \<open>r\<close>
  with a record \<open>old\<close>: whenever \<open>POST /refresh\<close>, \<open>getAccessToken\<close> or \<open>GET /token\<close>
  succeeds, the record then stored for \<open>r\<close> has the \<open>environment\<close> of \<open>old\<close>. (The
  handlers write the configured deployment name rather than copying the field; the two
  agree because every record was written under the same configuration.)
\<close>

theorem refresh_preserves_environment:
  assumes "reachable e s gs ts" and "map_of (tokenStore s) r = Some old"
  shows "(\<forall>x s'. refresh_route e (Some r) t0 reply t1 s = (RefreshOk x, s') \<longrightarrow>
            map_option environment (map_of (tokenStore s') r) = Some (environment old))
       \<and> (\<forall>a s'. getAccessToken e (Some r) t0 reply t1 s = (Inr a, s') \<longrightarrow>
            map_option environment (map_of (tokenStore s') r) = Some (environment old))
       \<and> (\<forall>i s'. token_route e (Some r) t0 reply t1 s = (TokenOk i, s') \<longrightarrow>
            map_option environment (map_of (tokenStore s') r) = Some (environment old))"
proof -
  have "env_consistent e (tokenStore s)" using assms(1) reachable_consistent by blast
  then have env: "environment old = env_environment e"
    using assms(2) by (rule env_consistent_lookup)
  show ?thesis
    using refresh_route_environment [OF assms(2) env]
      getAccessToken_environment [OF assms(2) env]
      token_route_environment [OF assms(2) env]
    by blast
qed

theorem refresh_preserves_environment_witness:
  "reachable sample_env
     (snd (handle_callback [] sample_env (Some ''code'') (Some ''s1'') (Some ''co-1'') None sample_ok
        1000 (snd (authorize_route sample_env ''http://localhost:3001'' ''s1'' 0
                \<lparr> tokenStore = [], oauthStateStore = [] \<rparr>)))) [] []
   \<and> map_of (tokenStore
        (snd (handle_callback [] sample_env (Some ''code'') (Some ''s1'') (Some ''co-1'') None sample_ok
           1000 (snd (authorize_route sample_env ''http://localhost:3001'' ''s1'' 0
                   \<lparr> tokenStore = [], oauthStateStore = [] \<rparr>))))) ''co-1''
      = Some (callback_record sample_env ''co-1'' sample_json 1000)
   \<and> map_option environment (map_of (tokenStore
        (snd (refresh_route sample_env (Some ''co-1'') 3500000 sample_ok 3500100
           (snd (handle_callback [] sample_env (Some ''code'') (Some ''s1'') (Some ''co-1'') None
              sample_ok 1000 (snd (authorize_route sample_env ''http://localhost:3001'' ''s1'' 0
                   \<lparr> tokenStore = [], oauthStateStore = [] \<rparr>))))))) ''co-1'')
      = Some (environment (callback_record sample_env ''co-1'' sample_json 1000))"
proof -
  let ?s0 = "\<lparr> tokenStore = [], oauthStateStore = [] \<rparr>"
  let ?s1 = "snd (authorize_route sample_env ''http://localhost:3001'' ''s1'' 0 ?s0)"
  let ?s2 = "snd (handle_callback [] sample_env (Some ''code'') (Some ''s1'') (Some ''co-1'') None
                sample_ok 1000 ?s1)"
  let ?old = "callback_record sample_env ''co-1'' sample_json 1000"
  have s2: "?s2 = \<lparr> tokenStore = [(''co-1'', ?old)], oauthStateStore = [] \<rparr>"
    by (simp add: authorize_route_def handle_callback_def sample_env_def sample_ok_def
        sample_ok_response_def truthy_str_def js_or_default_def Let_def)
  have h1: "reachable sample_env ?s2 [] []"
    by (intro reachable.called_back reachable.authorized reachable.started)
  have h2: "map_of (tokenStore ?s2) ''co-1'' = Some ?old"
    by (simp add: s2)
  have ok: "fst (refresh_route sample_env (Some ''co-1'') 3500000 sample_ok 3500100 ?s2)
              = RefreshOk (Some 3600)"
    unfolding s2
    by (simp add: refresh_route_def callback_record_def sample_json_def sample_ok_def
        sample_ok_response_def truthy_str_def js_ge_def js_add_def js_mul_def)
  then have "refresh_route sample_env (Some ''co-1'') 3500000 sample_ok 3500100 ?s2
              = (RefreshOk (Some 3600),
                 snd (refresh_route sample_env (Some ''co-1'') 3500000 sample_ok 3500100 ?s2))"
    by (metis prod.collapse)
  with refresh_preserves_environment [OF h1 h2, of 3500000 sample_ok 3500100]
  have "map_option environment (map_of (tokenStore
          (snd (refresh_route sample_env (Some ''co-1'') 3500000 sample_ok 3500100 ?s2))) ''co-1'')
        = Some (environment ?old)"
    by blast
  then show ?thesis using h1 h2 by blast
qed

end
